theory Spec2Isabelle
  imports Complex_Main
begin

section \<open>Geospatial arithmetic\<close>

text \<open>
  Python floats are idealised as real numbers: the definitions below compute over
  \<open>real\<close> what the source computes over IEEE doubles, and rounding is modelled only
  where it is said so.
  A coordinate is the source's two-element list \<open>[lng, lat]\<close>, written as a pair
  (first component longitude, second latitude).
\<close>

type_synonym coord = "real \<times> real"

datatype py_error =
    ValueError string
  | TypeError
  | HTTPError
  | JSONDecodeError
  | KeyError string
  | IndexError
  | OSRMError
  | ZeroDivisionError

text \<open>\<open>math.radians\<close> and \<open>math.degrees\<close>.\<close>

definition radians :: "real \<Rightarrow> real" where
  "radians x = x * pi / 180"

definition degrees :: "real \<Rightarrow> real" where
  "degrees x = x * 180 / pi"

text \<open>\<open>math.sqrt\<close> raises \<open>ValueError\<close> on a negative argument.\<close>

definition py_sqrt :: "real \<Rightarrow> py_error + real" where
  "py_sqrt x = (if x < 0 then Inl (ValueError ''math domain error'') else Inr (sqrt x))"

text \<open>Python's \<open>x / y\<close> raises \<open>ZeroDivisionError\<close> when \<open>y\<close> is zero. Every division
  whose divisor is computed from the input is written with \<open>py_div\<close>; a divisor that is
  a non-zero constant of the source (\<open>3.6\<close>, \<open>10\<close>, \<open>steps = 10\<close>) cannot raise.\<close>

definition py_div :: "real \<Rightarrow> real \<Rightarrow> py_error + real" where
  "py_div x y = (if y = 0 then Inl ZeroDivisionError else Inr (x / y))"

text \<open>\<open>math.atan2(y, x)\<close>: the angle of the point \<open>(x, y)\<close>, in \<open>(-pi, pi]\<close>,
  with \<open>atan2(0, 0) = 0\<close>.\<close>

definition atan2 :: "real \<Rightarrow> real \<Rightarrow> real" where
  "atan2 y x =
     (if 0 < x then arctan (y / x)
      else if x < 0 then (if 0 \<le> y then arctan (y / x) + pi else arctan (y / x) - pi)
      else if 0 < y then pi / 2
      else if y < 0 then - (pi / 2)
      else 0)"

text \<open>Python's \<open>x % m\<close> on floats, for a positive modulus: the result has the sign of
  \<open>m\<close>.\<close>

definition py_fmod :: "real \<Rightarrow> real \<Rightarrow> real" where
  "py_fmod x m = x - m * of_int \<lfloor>x / m\<rfloor>"

text \<open>\<open>OSRMService.calculate_bearing(lng1, lat1, lng2, lat2)\<close>.\<close>

definition calculate_bearing :: "real \<Rightarrow> real \<Rightarrow> real \<Rightarrow> real \<Rightarrow> real" where
  "calculate_bearing lng1 lat1 lng2 lat2 =
     (let lat1_rad = radians lat1;
          lat2_rad = radians lat2;
          lng_diff = radians (lng2 - lng1);
          x = sin lng_diff * cos lat2_rad;
          y = cos lat1_rad * sin lat2_rad - (sin lat1_rad * cos lat2_rad * cos lng_diff);
          bearing = atan2 x y;
          bearing_deg = degrees bearing
      in py_fmod (bearing_deg + 360) 360)"

text \<open>\<open>SimulationEngine._calculate_distance(lat1, lng1, lat2, lng2)\<close>: the haversine
  distance in metres. The two calls of \<open>math.sqrt\<close> are the places where it can raise.\<close>

definition calculate_distance :: "real \<Rightarrow> real \<Rightarrow> real \<Rightarrow> real \<Rightarrow> py_error + real" where
  "calculate_distance lat1 lng1 lat2 lng2 =
     (let R = 6371000;
          phi1 = radians lat1;
          phi2 = radians lat2;
          delta_phi = radians (lat2 - lat1);
          delta_lambda = radians (lng2 - lng1);
          a = (sin (delta_phi / 2))\<^sup>2 + cos phi1 * cos phi2 * (sin (delta_lambda / 2))\<^sup>2
      in case py_sqrt a of
           Inl e \<Rightarrow> Inl e
         | Inr sa \<Rightarrow>
             (case py_sqrt (1 - a) of
                Inl e \<Rightarrow> Inl e
              | Inr sb \<Rightarrow> Inr (R * (2 * atan2 sa sb))))"

text \<open>Rounding to the nearest double, ties to even, with 53 bits of significand and an
  unbounded exponent (no overflow, no subnormal numbers). It is applied where a claim
  compares a computed value with an input for equality: to the coordinates of the
  straight-line fallback.\<close>

definition round_half_even :: "real \<Rightarrow> int" where
  "round_half_even y =
     (let f = \<lfloor>y\<rfloor>; r = y - of_int f
      in if r < 1 / 2 then f
         else if 1 / 2 < r then f + 1
         else if even f then f else f + 1)"

definition fl :: "real \<Rightarrow> real" where
  "fl x =
     (if x = 0 then 0
      else let e = \<lfloor>log 2 \<bar>x\<bar>\<rfloor>;
               ulp = 2 powr (of_int e - 52)
           in ulp * of_int (round_half_even (x / ulp)))"

text \<open>The quantity \<open>a\<close> of \<open>_calculate_distance\<close>, named for the proofs.\<close>

definition haversine_a :: "real \<Rightarrow> real \<Rightarrow> real \<Rightarrow> real \<Rightarrow> real" where
  "haversine_a lat1 lng1 lat2 lng2 =
     (sin (radians (lat2 - lat1) / 2))\<^sup>2
       + cos (radians lat1) * cos (radians lat2) * (sin (radians (lng2 - lng1) / 2))\<^sup>2"

section \<open>Route acquisition\<close>

text \<open>
  \<open>OSRMService.get_route\<close> sends one request to the configured server and, when that
  fails, one to the public server. What a request does is an input of the model: the
  exception of \<open>client.get\<close> or of \<open>raise_for_status\<close>, a body that is not JSON, or the
  decoded body. In a decoded body a key that is missing, or whose value the
  \<open>OSRMRoute\<close> model rejects, is \<open>None\<close>.
\<close>

record geometry_json =
  gj_type :: string
  gj_coordinates :: "coord list option"

record route_json =
  rj_geometry :: "geometry_json option"
  rj_distance :: "real option"
  rj_duration :: "real option"

record osrm_body =
  body_code :: "string option"
  body_routes :: "route_json list option"

datatype http_result = RequestFailed | StatusFailed | NotJson | Body osrm_body

record geojson =
  geo_type :: string
  geo_coordinates :: "coord list"

record OSRMRoute =
  osrm_geometry :: geojson
  osrm_distance :: real
  osrm_duration :: real
  osrm_coordinates :: "coord list"

text \<open>The body of either \<open>try\<close> block: from the response to the returned route.\<close>

definition parse_route :: "http_result \<Rightarrow> py_error + OSRMRoute" where
  "parse_route response =
     (case response of
        RequestFailed \<Rightarrow> Inl HTTPError
      | StatusFailed \<Rightarrow> Inl HTTPError
      | NotJson \<Rightarrow> Inl JSONDecodeError
      | Body data \<Rightarrow>
          if body_code data \<noteq> Some ''Ok'' then Inl OSRMError
          else
            (case body_routes data of
               None \<Rightarrow> Inl (KeyError ''routes'')
             | Some [] \<Rightarrow> Inl IndexError
             | Some (route # _) \<Rightarrow>
                 (case rj_geometry route of
                    None \<Rightarrow> Inl (KeyError ''geometry'')
                  | Some geometry \<Rightarrow>
                      (case rj_distance route of
                         None \<Rightarrow> Inl (KeyError ''distance'')
                       | Some distance \<Rightarrow>
                           (case rj_duration route of
                              None \<Rightarrow> Inl (KeyError ''duration'')
                            | Some duration \<Rightarrow>
                                (case gj_coordinates geometry of
                                   None \<Rightarrow> Inl (KeyError ''coordinates'')
                                 | Some coordinates \<Rightarrow>
                                     Inr \<lparr>osrm_geometry =
                                            \<lparr>geo_type = gj_type geometry,
                                             geo_coordinates = coordinates\<rparr>,
                                          osrm_distance = distance,
                                          osrm_duration = duration,
                                          osrm_coordinates = coordinates\<rparr>))))))"

text \<open>The straight-line fallback: the loop over \<open>range(steps + 1)\<close>, each operation
  on the coordinates rounded as the doubles of the source round it, then the distance
  and the duration.\<close>

definition straight_line_coordinates :: "real \<Rightarrow> real \<Rightarrow> real \<Rightarrow> real \<Rightarrow> coord list" where
  "straight_line_coordinates start_lng start_lat end_lng end_lat =
     (let steps = 10 :: nat in
      map (\<lambda>i. let t = fl (real i / real steps);
                    lng = fl (start_lng + fl (fl (end_lng - start_lng) * t));
                    lat = fl (start_lat + fl (fl (end_lat - start_lat) * t))
                in (lng, lat)) [0 ..< steps + 1])"

definition straight_line_route ::
    "real \<Rightarrow> real \<Rightarrow> real \<Rightarrow> real \<Rightarrow> py_error + OSRMRoute" where
  "straight_line_route start_lng start_lat end_lng end_lat =
     (let coordinates = straight_line_coordinates start_lng start_lat end_lng end_lat;
          dx = (end_lng - start_lng) * 111.32 * cos (radians start_lat);
          dy = (end_lat - start_lat) * 110.57
      in case py_sqrt (dx * dx + dy * dy) of
           Inl e \<Rightarrow> Inl e
         | Inr r \<Rightarrow>
             let distance = r * 1000;
                 duration = distance / 10
             in Inr \<lparr>osrm_geometry =
                       \<lparr>geo_type = ''LineString'', geo_coordinates = coordinates\<rparr>,
                     osrm_distance = distance,
                     osrm_duration = duration,
                     osrm_coordinates = coordinates\<rparr>)"

text \<open>\<open>get_route\<close>, given the outcome of the request to the configured server and of
  the request to the public server.\<close>

definition get_route ::
    "http_result \<Rightarrow> http_result \<Rightarrow> real \<Rightarrow> real \<Rightarrow> real \<Rightarrow> real \<Rightarrow> py_error + OSRMRoute" where
  "get_route local_response public_response start_lng start_lat end_lng end_lat =
     (case parse_route local_response of
        Inr route \<Rightarrow> Inr route
      | Inl e \<Rightarrow>
          (case parse_route public_response of
             Inr route \<Rightarrow> Inr route
           | Inl public_e \<Rightarrow> straight_line_route start_lng start_lat end_lng end_lat))"

section \<open>The record store\<close>

text \<open>
  \<open>app/database.py\<close> wraps three tables of an external store. Each table is a list
  of rows in insertion order, which is also the order of the timestamps the store
  assigns; failures of the store itself are not modelled. A column of a row is
  \<open>Absent\<close> when the dictionary has no such key, \<open>Null\<close> when the key holds \<open>None\<close>.
\<close>

datatype 'a field = Absent | Null | Val 'a

record car_row =
  row_id :: string
  row_speed :: "real field"
  row_status :: string

record position_row =
  pos_car_id :: string
  pos_lng :: real
  pos_lat :: real
  pos_heading :: real
  pos_progress :: real

record database =
  cars :: "car_row list"
  car_positions :: "position_row list"

definition insert_car_position :: "position_row \<Rightarrow> database \<Rightarrow> database" where
  "insert_car_position position_data db =
     db\<lparr>car_positions := car_positions db @ [position_data]\<rparr>"

definition update_car_status :: "string \<Rightarrow> string \<Rightarrow> database \<Rightarrow> database" where
  "update_car_status car_id st db =
     db\<lparr>cars := map (\<lambda>c. if row_id c = car_id then c\<lparr>row_status := st\<rparr> else c) (cars db)\<rparr>"

definition get_all_cars :: "database \<Rightarrow> car_row list" where
  "get_all_cars db = cars db"

text \<open>The newest position of a car: ordered by timestamp, descending, limit 1.\<close>

definition get_car_latest_position :: "database \<Rightarrow> string \<Rightarrow> position_row option" where
  "get_car_latest_position db car_id =
     find (\<lambda>p. pos_car_id p = car_id) (rev (car_positions db))"

text \<open>\<open>d.get(key, default)\<close> for one column; the result \<open>None\<close> is Python's \<open>None\<close>.\<close>

definition dict_get :: "'a field \<Rightarrow> 'a \<Rightarrow> 'a option" where
  "dict_get f dflt = (case f of Absent \<Rightarrow> Some dflt | Null \<Rightarrow> None | Val v \<Rightarrow> Some v)"

text \<open>The default of the field \<open>speed\<close> of \<open>SpawnCarRequest\<close> in \<open>app/models.py\<close>,
  used when the request omits the field.\<close>

definition SpawnCarRequest_speed :: "real field \<Rightarrow> real option" where
  "SpawnCarRequest_speed f = dict_get f 30"

section \<open>The simulation engine\<close>

text \<open>
  The state of one car is the dictionary stored in \<open>car_states\<close>. The status is the
  source's string, \<open>''moving''\<close> or \<open>''finished''\<close>. A call returns the world it leaves
  behind; a call that raises returns the exception together with that world, which
  holds whatever the call had written before it raised.
\<close>

record car_state =
  coordinates :: "coord list"
  current_index :: nat
  progress :: real
  status :: string

record engine =
  running :: bool
  update_interval :: real
  car_states :: "string \<rightharpoonup> car_state"

type_synonym world = "engine \<times> database"

type_synonym 'w result = "(py_error \<times> 'w) + 'w"

definition calculate_initial_heading :: "coord list \<Rightarrow> real" where
  "calculate_initial_heading cs =
     (if length cs < 2 then 0
      else let (lng1, lat1) = cs ! 0; (lng2, lat2) = cs ! 1
           in calculate_bearing lng1 lat1 lng2 lat2)"

definition add_car :: "string \<Rightarrow> coord list \<Rightarrow> world \<Rightarrow> world result" where
  "add_car car_id route_coordinates w =
     (let eng = fst w; db = snd w in
      if length route_coordinates < 2
      then Inl (ValueError ''Route must have at least 2 coordinates'', w)
      else
        let eng1 = eng\<lparr>car_states := (car_states eng)(car_id \<mapsto>
                     \<lparr>coordinates = route_coordinates, current_index = 0,
                      progress = 0, status = ''moving''\<rparr>)\<rparr>;
            start_coord = route_coordinates ! 0;
            db1 = insert_car_position
                    \<lparr>pos_car_id = car_id, pos_lng = fst start_coord, pos_lat = snd start_coord,
                     pos_heading = calculate_initial_heading route_coordinates,
                     pos_progress = 0\<rparr> db
        in Inr (eng1, db1))"

definition finish_car :: "string \<Rightarrow> world \<Rightarrow> world" where
  "finish_car car_id w =
     (let eng = fst w; db = snd w in
      case car_states eng car_id of
        None \<Rightarrow> w
      | Some state \<Rightarrow>
          (eng\<lparr>car_states := (car_states eng)(car_id \<mapsto>
                  state\<lparr>status := ''finished'', progress := 100\<rparr>)\<rparr>,
           update_car_status car_id ''finished'' db))"

definition update_car_position :: "string \<Rightarrow> world \<Rightarrow> world result" where
  "update_car_position car_id w =
     (let eng = fst w; db = snd w in
      case car_states eng car_id of
        None \<Rightarrow> Inr w
      | Some state \<Rightarrow>
          if status state = ''finished'' then Inr w
          else
            let coords = coordinates state;
                ci = current_index state
            in
            if int (length coords) - 1 \<le> int ci then Inr (finish_car car_id w)
            else
              let current_point = coords ! ci;
                  next_point = coords ! (ci + 1)
              in
              case find (\<lambda>c. row_id c = car_id) (get_all_cars db) of
                None \<Rightarrow> Inr (eng\<lparr>car_states := (car_states eng)(car_id := None)\<rparr>, db)
              | Some car \<Rightarrow>
                  (case dict_get (row_speed car) 30 of
                     None \<Rightarrow> Inl (TypeError, w)
                   | Some speed_kmh \<Rightarrow>
                       let distance_per_update = (speed_kmh / 3.6) * update_interval eng in
                       case calculate_distance (snd current_point) (fst current_point)
                              (snd next_point) (fst next_point) of
                         Inl e \<Rightarrow> Inl (e, w)
                       | Inr segment_distance \<Rightarrow>
                           (case
                              (if segment_distance \<le> distance_per_update then
                                 let state1 = state\<lparr>current_index := ci + 1\<rparr>;
                                     new_position = coords ! current_index state1;
                                     heading =
                                       (if int (current_index state1) < int (length coords) - 1
                                        then
                                          let next_coord = coords ! (current_index state1 + 1)
                                          in calculate_bearing (fst new_position) (snd new_position)
                                               (fst next_coord) (snd next_coord)
                                        else
                                          (case get_car_latest_position db car_id of
                                             Some latest_pos \<Rightarrow> pos_heading latest_pos
                                           | None \<Rightarrow> 0))
                                 in Inr (state1, new_position, heading)
                               else
                                 (case (if 0 < segment_distance
                                        then py_div distance_per_update segment_distance
                                        else Inr 0) of
                                    Inl e \<Rightarrow> Inl e
                                  | Inr progress_ratio \<Rightarrow>
                                      let new_lng = fst current_point
                                            + (fst next_point - fst current_point) * progress_ratio;
                                          new_lat = snd current_point
                                            + (snd next_point - snd current_point) * progress_ratio;
                                          new_position = (new_lng, new_lat);
                                          heading = calculate_bearing
                                                      (fst current_point) (snd current_point)
                                                      (fst next_point) (snd next_point)
                                      in Inr (state\<lparr>coordinates := coords[ci := new_position]\<rparr>,
                                              new_position, heading))) of
                              Inl e \<Rightarrow> Inl (e, w)
                            | Inr (state1, new_position, heading) \<Rightarrow>
                                (case py_div (real (current_index state1))
                                        (real_of_int (int (length (coordinates state1)) - 1)) of
                                   Inl e \<Rightarrow>
                                     Inl (e, (eng\<lparr>car_states :=
                                                   (car_states eng)(car_id \<mapsto> state1)\<rparr>, db))
                                 | Inr q \<Rightarrow>
                                     let prog = q * 100;
                                         state2 = state1\<lparr>progress := prog\<rparr>
                                     in Inr (eng\<lparr>car_states :=
                                                  (car_states eng)(car_id \<mapsto> state2)\<rparr>,
                                             insert_car_position
                                               \<lparr>pos_car_id = car_id, pos_lng = fst new_position,
                                                pos_lat = snd new_position, pos_heading = heading,
                                                pos_progress = prog\<rparr> db)))))"

text \<open>\<open>update_all_cars\<close>: one call per registered car; an exception of one call is
  caught and the loop goes on from the world that call left.\<close>

fun update_cars :: "string list \<Rightarrow> world \<Rightarrow> world" where
  "update_cars [] w = w"
| "update_cars (car_id # car_ids) w =
     (case update_car_position car_id w of
        Inl (e, w1) \<Rightarrow> update_cars car_ids w1
      | Inr w1 \<Rightarrow> update_cars car_ids w1)"

section \<open>Sequences of calls\<close>

text \<open>The worlds that calls of \<open>update_car_position\<close> lead to, for any ids and in any
  number. Between two calls the record store may change in any way, since other
  writers share it; a call that raises leaves the world it returns with the
  exception.\<close>

inductive advances :: "world \<Rightarrow> world \<Rightarrow> bool" where
  advances_refl: "advances w w"
| advances_return:
    "advances w (eng1, db1) \<Longrightarrow> update_car_position car_id (eng1, db2) = Inr w2
       \<Longrightarrow> advances w w2"
| advances_raise:
    "advances w (eng1, db1) \<Longrightarrow> update_car_position car_id (eng1, db2) = Inl (e, w2)
       \<Longrightarrow> advances w w2"

text \<open>The invariant of a registered car state, and the order in which calls move it.\<close>

definition car_inv :: "car_state \<Rightarrow> bool" where
  "car_inv st =
     (2 \<le> length (coordinates st)
      \<and> current_index st + 1 \<le> length (coordinates st)
      \<and> progress st = real (current_index st) / real (length (coordinates st) - 1) * 100
      \<and> (if status st = ''finished'' then current_index st + 1 = length (coordinates st)
          else True))"

definition car_le :: "car_state \<Rightarrow> car_state \<Rightarrow> bool" where
  "car_le s s' =
     (length (coordinates s') = length (coordinates s)
      \<and> current_index s \<le> current_index s'
      \<and> (if status s = ''finished'' then s' = s else True))"

text \<open>A number of calls in a row for one car, stopping at the first exception, and the
  state of the car after them.\<close>

fun advance_times :: "nat \<Rightarrow> string \<Rightarrow> world \<Rightarrow> world result" where
  "advance_times 0 car_id w = Inr w"
| "advance_times (Suc n) car_id w =
     (case update_car_position car_id w of
        Inl e \<Rightarrow> Inl e
      | Inr w1 \<Rightarrow> advance_times n car_id w1)"

definition state_after :: "nat \<Rightarrow> string \<Rightarrow> world \<Rightarrow> car_state option" where
  "state_after n car_id w =
     (case advance_times n car_id w of
        Inl e \<Rightarrow> None
      | Inr w1 \<Rightarrow> car_states (fst w1) car_id)"

section \<open>Example worlds\<close>

text \<open>One car \<open>''car''\<close> with a given state, an engine that ticks once a second, and a
  record store whose only row gives that car a speed of 36 km/h.\<close>

definition ex_state :: "coord list \<Rightarrow> car_state" where
  "ex_state path =
     \<lparr>coordinates = path, current_index = 0, progress = 0, status = ''moving''\<rparr>"

definition ex_engine :: "car_state \<Rightarrow> engine" where
  "ex_engine st =
     \<lparr>running = True, update_interval = 1, car_states = [''car'' \<mapsto> st]\<rparr>"

definition ex_row :: "real field \<Rightarrow> car_row" where
  "ex_row f = \<lparr>row_id = ''car'', row_speed = f, row_status = ''moving''\<rparr>"

definition ex_db :: "real field \<Rightarrow> database" where
  "ex_db f = \<lparr>cars = [ex_row f], car_positions = []\<rparr>"

text \<open>Three paths of two points 25 metres apart: one along the equator across the
  antimeridian, one along the meridian of Greenwich, one along the equator due east
  of it.\<close>

definition antimeridian_path :: "coord list" where
  "antimeridian_path =
     [(180 - 2250 / (6371000 * pi), 0), (2250 / (6371000 * pi) - 180, 0)]"

definition meridian_path :: "coord list" where
  "meridian_path = [(0, 0), (0, 4500 / (6371000 * pi))]"

definition equator_path :: "coord list" where
  "equator_path = [(0, 0), (4500 / (6371000 * pi), 0)]"

text \<open>The coordinate of a given position of the route that a call of \<open>get_route\<close>
  gave, if it gave one with that many coordinates.\<close>

definition route_point :: "nat \<Rightarrow> py_error + OSRMRoute \<Rightarrow> coord option" where
  "route_point i r =
     (case r of
        Inl e \<Rightarrow> None
      | Inr route \<Rightarrow>
          if i < length (osrm_coordinates route) then Some (osrm_coordinates route ! i)
          else None)"


section \<open>Properties of the geospatial arithmetic\<close>

text \<open>Both arguments of \<open>math.sqrt\<close> in the haversine formula are non-negative, so
  \<open>_calculate_distance\<close> never raises.\<close>

lemma haversine_a_bounds:
  fixes p1 p2 l :: real
  defines "a \<equiv> (sin ((p2 - p1) / 2))\<^sup>2 + cos p1 * cos p2 * (sin (l / 2))\<^sup>2"
  shows "0 \<le> a \<and> a \<le> 1"
proof -
  define s where "s = (sin (l / 2))\<^sup>2"
  define c1 where "c1 = cos (p2 - p1)"
  define c2 where "c2 = cos (p2 + p1)"
  have s0: "0 \<le> s" by (simp add: s_def)
  have s1: "s \<le> 1" unfolding s_def by (simp add: sin_squared_eq)
  have c1b: "- 1 \<le> c1" "c1 \<le> 1" by (simp_all add: c1_def)
  have c2b: "- 1 \<le> c2" "c2 \<le> 1" by (simp_all add: c2_def)
  have h: "(sin ((p2 - p1) / 2))\<^sup>2 = (1 - c1) / 2"
  proof -
    have "2 * ((p2 - p1) / 2) = p2 - p1" by simp
    then have "c1 = 1 - 2 * (sin ((p2 - p1) / 2))\<^sup>2"
      using cos_double_sin [of "(p2 - p1) / 2"] unfolding c1_def by presburger
    then show ?thesis by simp
  qed
  have cc: "cos p1 * cos p2 = (c1 + c2) / 2"
    by (simp add: c1_def c2_def cos_diff cos_add)
  have a_eq: "2 * a = 1 - (1 - s) * c1 + s * c2"
    unfolding a_def h cc s_def [symmetric] by (simp add: field_simps)
  have p1: "(1 - s) * c1 \<le> (1 - s) * 1" using s1 c1b by (intro mult_left_mono) simp_all
  have p2: "(1 - s) * (- 1) \<le> (1 - s) * c1" using s1 c1b by (intro mult_left_mono) simp_all
  have p3: "s * c2 \<le> s * 1" using s0 c2b by (intro mult_left_mono) simp_all
  have p4: "s * (- 1) \<le> s * c2" using s0 c2b by (intro mult_left_mono) simp_all
  from a_eq p1 p2 p3 p4 show ?thesis by simp
qed

lemma radians_diff: "radians (x - y) = radians x - radians y"
  by (simp add: radians_def diff_divide_distrib left_diff_distrib)

lemma haversine_a_range:
  "0 \<le> haversine_a lat1 lng1 lat2 lng2 \<and> haversine_a lat1 lng1 lat2 lng2 \<le> 1"
  unfolding haversine_a_def radians_diff [of lat2 lat1]
  by (rule haversine_a_bounds)

lemma calculate_distance_value:
  "calculate_distance lat1 lng1 lat2 lng2 =
     Inr (6371000 * (2 * atan2 (sqrt (haversine_a lat1 lng1 lat2 lng2))
                             (sqrt (1 - haversine_a lat1 lng1 lat2 lng2))))"
  using haversine_a_range [of lat1 lng1 lat2 lng2]
  by (simp add: calculate_distance_def Let_def py_sqrt_def haversine_a_def [symmetric])

lemma atan2_nonneg: "0 \<le> y \<Longrightarrow> 0 \<le> x \<Longrightarrow> 0 \<le> atan2 y x"
  by (auto simp: atan2_def arctan_less_zero_iff not_less zero_le_divide_iff)

lemma py_fmod_range: "0 < m \<Longrightarrow> 0 \<le> py_fmod x m \<and> py_fmod x m < m"
proof -
  assume m: "0 < m"
  have lo: "of_int \<lfloor>x / m\<rfloor> \<le> x / m" by (rule of_int_floor_le)
  have hi: "x / m < of_int \<lfloor>x / m\<rfloor> + 1" by linarith
  from lo have "of_int \<lfloor>x / m\<rfloor> * m \<le> x"
    using pos_le_divide_eq [OF m] by blast
  moreover from hi have "x < (of_int \<lfloor>x / m\<rfloor> + 1) * m"
    using pos_divide_less_eq [OF m] by blast
  ultimately show ?thesis
    by (simp add: py_fmod_def algebra_simps)
qed

lemma py_fmod_id: "0 \<le> x \<Longrightarrow> x < m \<Longrightarrow> py_fmod (x + m) m = x"
proof -
  assume x: "0 \<le> x" "x < m"
  then have m: "0 < m" by simp
  have "(x + m) / m = x / m + 1" using m by (simp add: field_simps)
  moreover have "\<lfloor>x / m\<rfloor> = 0" using x m by (simp add: floor_eq_iff)
  ultimately have "\<lfloor>(x + m) / m\<rfloor> = 1" by simp
  then show ?thesis by (simp add: py_fmod_def)
qed

text \<open>C8: the bearing lies in \<open>[0, 360)\<close>; it is 0 for two equal points, 0 from (0,0) to
  (0,1) and 90 from (0,0) to (1,0), coordinates in (lng, lat) order.\<close>

theorem C8_bearing_range_and_examples:
  "0 \<le> calculate_bearing lng1 lat1 lng2 lat2
   \<and> calculate_bearing lng1 lat1 lng2 lat2 < 360
   \<and> calculate_bearing lng1 lat1 lng1 lat1 = 0
   \<and> calculate_bearing 0 0 0 1 = 0
   \<and> calculate_bearing 0 0 1 0 = 90"
proof -
  have rng: "0 \<le> calculate_bearing lng1 lat1 lng2 lat2
      \<and> calculate_bearing lng1 lat1 lng2 lat2 < 360"
    using py_fmod_range [of 360] by (simp add: calculate_bearing_def Let_def)
  have z: "py_fmod (0 + 360) 360 = 0" by (rule py_fmod_id) simp_all
  have same: "calculate_bearing lng1 lat1 lng1 lat1 = 0"
    using z by (simp add: calculate_bearing_def Let_def radians_def degrees_def atan2_def
        mult.commute)
  have "0 < pi / 180" "pi / 180 < pi" by simp_all
  then have s: "0 < sin (pi / 180)" by (rule sin_gt_zero)
  have north: "calculate_bearing 0 0 0 1 = 0"
    using z s by (simp add: calculate_bearing_def Let_def radians_def degrees_def atan2_def)
  have e: "py_fmod (90 + 360) 360 = 90" by (rule py_fmod_id) simp_all
  have east: "calculate_bearing 0 0 1 0 = 90"
    using e s by (simp add: calculate_bearing_def Let_def radians_def degrees_def atan2_def)
  from rng same north east show ?thesis by simp
qed

lemma atan2_sin_cos: "0 \<le> x \<Longrightarrow> x \<le> pi / 2 \<Longrightarrow> atan2 (sin x) (cos x) = x"
proof (cases "x = pi / 2")
  case True
  have "sin (pi / 2) = 1" "cos (pi / 2) = 0" by simp_all
  then have "sin x = 1" "cos x = 0" unfolding True by blast+
  then show ?thesis unfolding atan2_def True by simp
next
  case False
  assume "0 \<le> x" "x \<le> pi / 2"
  with False have x: "- (pi / 2) < x" "x < pi / 2" by simp_all
  then have "0 < cos x" by (rule cos_gt_zero_pi)
  moreover have "arctan (sin x / cos x) = x"
    using arctan_tan [OF x] by (simp add: tan_def)
  ultimately show ?thesis by (simp add: atan2_def)
qed

lemma distance_same_lng:
  assumes "\<bar>lat2 - lat1\<bar> \<le> 180"
  shows "calculate_distance lat1 lng lat2 lng = Inr (6371000 * \<bar>radians (lat2 - lat1)\<bar>)"
proof -
  define x where "x = \<bar>radians (lat2 - lat1)\<bar> / 2"
  have x0: "0 \<le> x" by (simp add: x_def)
  have "\<bar>radians (lat2 - lat1)\<bar> = \<bar>lat2 - lat1\<bar> * pi / 180"
    by (simp add: radians_def abs_mult)
  also have "\<dots> \<le> 180 * pi / 180"
    using assms by (intro divide_right_mono mult_right_mono) simp_all
  finally have x1: "x \<le> pi / 2" by (simp add: x_def)
  have a: "haversine_a lat1 lng lat2 lng = (sin x)\<^sup>2"
  proof -
    have "(sin (radians (lat2 - lat1) / 2))\<^sup>2 = (sin x)\<^sup>2"
      unfolding x_def by (cases "0 \<le> radians (lat2 - lat1)") (simp_all add: abs_if)
    then show ?thesis by (simp add: haversine_a_def radians_def)
  qed
  have sx: "0 \<le> sin x" using x0 x1 by (intro sin_ge_zero) simp_all
  have cx: "0 \<le> cos x" using x0 x1 by (intro cos_ge_zero) simp_all
  have s1: "sqrt ((sin x)\<^sup>2) = sin x" using sx by simp
  have "1 - (sin x)\<^sup>2 = (cos x)\<^sup>2" by (simp add: cos_squared_eq)
  then have s2: "sqrt (1 - (sin x)\<^sup>2) = cos x" using cx by simp
  show ?thesis
    unfolding calculate_distance_value a s1 s2 atan2_sin_cos [OF x0 x1]
    by (simp add: x_def)
qed

lemma distance_same_point: "calculate_distance lat lng lat lng = Inr 0"
  using distance_same_lng [of lat lat lng] by (simp add: radians_def)

lemma distance_nonneg: "calculate_distance lat1 lng1 lat2 lng2 = Inr d \<Longrightarrow> 0 \<le> d"
  using haversine_a_range [of lat1 lng1 lat2 lng2]
  by (auto simp: calculate_distance_value intro!: atan2_nonneg)

section \<open>The movement engine\<close>

text \<open>C4: \<open>update_car_position\<close> on an id that is not registered, or on a car whose
  status is \<^term>\<open>''finished''\<close>, returns normally and leaves the whole world as it
  was: the registry, every car state and the record store (so no sample is inserted).\<close>

theorem C4_advance_noop:
  assumes "car_states (fst w) car_id = None
           \<or> (\<exists>st. car_states (fst w) car_id = Some st \<and> status st = ''finished'')"
  shows "update_car_position car_id w = Inr w"
  using assms by (auto simp: update_car_position_def Let_def)

theorem C4_advance_noop_witness:
  "update_car_position ''car'' (ex_engine ((ex_state [(0, 0), (0, 1)])\<lparr>status := ''finished''\<rparr>), ex_db (Val 36))
     = Inr (ex_engine ((ex_state [(0, 0), (0, 1)])\<lparr>status := ''finished''\<rparr>), ex_db (Val 36))
   \<and> update_car_position ''bus'' (ex_engine (ex_state [(0, 0), (0, 1)]), ex_db (Val 36))
     = Inr (ex_engine (ex_state [(0, 0), (0, 1)]), ex_db (Val 36))"
  using C4_advance_noop [of "(ex_engine ((ex_state [(0, 0), (0, 1)])\<lparr>status := ''finished''\<rparr>), ex_db (Val 36))" "''car''"]
    C4_advance_noop [of "(ex_engine (ex_state [(0, 0), (0, 1)]), ex_db (Val 36))" "''bus''"]
  by (simp add: ex_engine_def ex_state_def)

text \<open>C7: \<open>add_car\<close> raises exactly when the route has fewer than 2 coordinates, and
  then it raises \<open>ValueError\<close> and leaves the registry and the record store as they
  were. Otherwise it registers the state with index 0, progress 0 and status
  \<^term>\<open>''moving''\<close>, and inserts exactly one sample: at the first coordinate, with
  progress 0 and the bearing from the first coordinate to the second.\<close>

theorem C7_add_car:
  "(length path < 2 \<longrightarrow>
      add_car car_id path (eng, db)
        = Inl (ValueError ''Route must have at least 2 coordinates'', (eng, db)))
   \<and> (2 \<le> length path \<longrightarrow>
      add_car car_id path (eng, db)
        = Inr (eng\<lparr>car_states := (car_states eng)(car_id \<mapsto>
                     \<lparr>coordinates = path, current_index = 0, progress = 0,
                      status = ''moving''\<rparr>)\<rparr>,
               db\<lparr>car_positions := car_positions db @
                     [\<lparr>pos_car_id = car_id, pos_lng = fst (path ! 0), pos_lat = snd (path ! 0),
                       pos_heading = calculate_bearing (fst (path ! 0)) (snd (path ! 0))
                                       (fst (path ! 1)) (snd (path ! 1)),
                       pos_progress = 0\<rparr>]\<rparr>))
   \<and> ((\<exists>e w. add_car car_id path (eng, db) = Inl (e, w)) \<longleftrightarrow> length path < 2)"
  by (auto simp: add_car_def Let_def insert_car_position_def calculate_initial_heading_def
      split: prod.splits)

theorem C7_add_car_witness:
  "add_car ''car'' [(0, 0)] (ex_engine (ex_state []), ex_db (Val 36))
     = Inl (ValueError ''Route must have at least 2 coordinates'',
            (ex_engine (ex_state []), ex_db (Val 36)))
   \<and> add_car ''car'' [(0, 0), (1, 0)] (ex_engine (ex_state []), ex_db (Val 36))
     = Inr (ex_engine (ex_state [(0, 0), (1, 0)]),
            \<lparr>cars = [ex_row (Val 36)],
             car_positions = [\<lparr>pos_car_id = ''car'', pos_lng = 0, pos_lat = 0,
                               pos_heading = calculate_bearing 0 0 1 0, pos_progress = 0\<rparr>]\<rparr>)"
  using C7_add_car [of "[(0, 0)]" "''car''" "ex_engine (ex_state [])" "ex_db (Val 36)"]
    C7_add_car [of "[(0, 0), (1, 0)]" "''car''" "ex_engine (ex_state [])" "ex_db (Val 36)"]
  by (simp add: ex_engine_def ex_state_def ex_db_def)

text \<open>The two branches of \<open>update_car_position\<close> that move a car.\<close>

lemma update_reach:
  assumes reg: "car_states eng car_id = Some st"
    and moving: "status st \<noteq> ''finished''"
    and inside: "current_index st + 1 < length (coordinates st)"
    and row: "find (\<lambda>c. row_id c = car_id) (get_all_cars db) = Some car"
    and speed: "dict_get (row_speed car) 30 = Some speed_kmh"
    and dist: "calculate_distance
                 (snd (coordinates st ! current_index st))
                 (fst (coordinates st ! current_index st))
                 (snd (coordinates st ! (current_index st + 1)))
                 (fst (coordinates st ! (current_index st + 1))) = Inr segment_distance"
    and budget: "segment_distance \<le> (speed_kmh / 3.6) * update_interval eng"
  shows "update_car_position car_id (eng, db) =
     Inr (eng\<lparr>car_states := (car_states eng)(car_id \<mapsto>
            st\<lparr>current_index := current_index st + 1,
               progress := real (current_index st + 1)
                           / real (length (coordinates st) - 1) * 100\<rparr>)\<rparr>,
          db\<lparr>car_positions := car_positions db @
            [\<lparr>pos_car_id = car_id,
              pos_lng = fst (coordinates st ! (current_index st + 1)),
              pos_lat = snd (coordinates st ! (current_index st + 1)),
              pos_heading =
                (if current_index st + 2 < length (coordinates st)
                 then calculate_bearing
                        (fst (coordinates st ! (current_index st + 1)))
                        (snd (coordinates st ! (current_index st + 1)))
                        (fst (coordinates st ! (current_index st + 2)))
                        (snd (coordinates st ! (current_index st + 2)))
                 else (case get_car_latest_position db car_id of
                         Some latest_pos \<Rightarrow> pos_heading latest_pos
                       | None \<Rightarrow> 0)),
              pos_progress = real (current_index st + 1)
                             / real (length (coordinates st) - 1) * 100\<rparr>]\<rparr>)"
proof -
  have len: "real_of_int (int (length (coordinates st)) - 1) = real (length (coordinates st) - 1)"
    using inside by (simp add: of_nat_diff)
  have lt: "(int (current_index st) + 1 < int (length (coordinates st)) - 1)
      = (current_index st + 2 < length (coordinates st))" by linarith
  have n2: "current_index st + 1 + 1 = current_index st + 2" by simp
  have nz: "real (length (coordinates st)) - 1 \<noteq> 0" using inside by simp
  show ?thesis
    unfolding update_car_position_def Let_def
    using inside budget nz
    by (simp add: reg moving row speed dist len lt n2 insert_car_position_def py_div_def
        del: add_2_eq_Suc add_2_eq_Suc' One_nat_def)
qed

lemma update_interpolate:
  assumes reg: "car_states eng car_id = Some st"
    and moving: "status st \<noteq> ''finished''"
    and inside: "current_index st + 1 < length (coordinates st)"
    and row: "find (\<lambda>c. row_id c = car_id) (get_all_cars db) = Some car"
    and speed: "dict_get (row_speed car) 30 = Some speed_kmh"
    and cur: "coordinates st ! current_index st = (lng1, lat1)"
    and nxt: "coordinates st ! (current_index st + 1) = (lng2, lat2)"
    and dist: "calculate_distance lat1 lng1 lat2 lng2 = Inr segment_distance"
    and budget: "(speed_kmh / 3.6) * update_interval eng < segment_distance"
    and ratio: "ratio = (if segment_distance = 0 then 0
                         else (speed_kmh / 3.6) * update_interval eng / segment_distance)"
    and prog: "prog = real (current_index st) / real (length (coordinates st) - 1) * 100"
  shows "update_car_position car_id (eng, db) =
     Inr (eng\<lparr>car_states := (car_states eng)(car_id \<mapsto>
            st\<lparr>coordinates := (coordinates st)
                   [current_index st := (lng1 + (lng2 - lng1) * ratio, lat1 + (lat2 - lat1) * ratio)],
               progress := prog\<rparr>)\<rparr>,
          db\<lparr>car_positions := car_positions db @
            [\<lparr>pos_car_id = car_id,
              pos_lng = lng1 + (lng2 - lng1) * ratio,
              pos_lat = lat1 + (lat2 - lat1) * ratio,
              pos_heading = calculate_bearing lng1 lat1 lng2 lat2,
              pos_progress = prog\<rparr>]\<rparr>)"
proof -
  have len: "real_of_int (int (length (coordinates st)) - 1) = real (length (coordinates st) - 1)"
    using inside by (simp add: of_nat_diff)
  have d0: "0 \<le> segment_distance" using dist by (rule distance_nonneg)
  then have pos: "(0 < segment_distance) = (segment_distance \<noteq> 0)" by linarith
  have nb: "\<not> segment_distance \<le> (speed_kmh / 3.6) * update_interval eng"
    using budget by simp
  have nz: "real (length (coordinates st)) - 1 \<noteq> 0" using inside by simp
  show ?thesis
    unfolding update_car_position_def Let_def
    using inside nb nz
    by (simp add: reg moving row speed cur nxt dist len pos ratio prog insert_car_position_def
        py_div_def del: One_nat_def)
qed

text \<open>C1: for a registered moving car that is not on its last waypoint, whose row gives
  the speed and whose budget \<open>(speed_kmh / 3.6) * update_interval\<close> is at least the
  haversine length of the current segment, one call increments \<open>current_index\<close> by
  exactly 1 and inserts a sample at exactly the waypoint of the new index. The result
  does not mention the budget: what exceeds the segment length is dropped.\<close>

theorem C1_reach_next_waypoint:
  assumes reg: "car_states eng car_id = Some st"
    and moving: "status st = ''moving''"
    and inside: "current_index st + 1 < length (coordinates st)"
    and row: "find (\<lambda>c. row_id c = car_id) (get_all_cars db) = Some car"
    and speed: "dict_get (row_speed car) 30 = Some speed_kmh"
    and dist: "calculate_distance
                 (snd (coordinates st ! current_index st))
                 (fst (coordinates st ! current_index st))
                 (snd (coordinates st ! (current_index st + 1)))
                 (fst (coordinates st ! (current_index st + 1))) = Inr segment_distance"
    and budget: "segment_distance \<le> (speed_kmh / 3.6) * update_interval eng"
  shows "update_car_position car_id (eng, db) =
     Inr (eng\<lparr>car_states := (car_states eng)(car_id \<mapsto>
            st\<lparr>current_index := current_index st + 1,
               progress := real (current_index st + 1)
                           / real (length (coordinates st) - 1) * 100\<rparr>)\<rparr>,
          db\<lparr>car_positions := car_positions db @
            [\<lparr>pos_car_id = car_id,
              pos_lng = fst (coordinates st ! (current_index st + 1)),
              pos_lat = snd (coordinates st ! (current_index st + 1)),
              pos_heading =
                (if current_index st + 2 < length (coordinates st)
                 then calculate_bearing
                        (fst (coordinates st ! (current_index st + 1)))
                        (snd (coordinates st ! (current_index st + 1)))
                        (fst (coordinates st ! (current_index st + 2)))
                        (snd (coordinates st ! (current_index st + 2)))
                 else (case get_car_latest_position db car_id of
                         Some latest_pos \<Rightarrow> pos_heading latest_pos
                       | None \<Rightarrow> 0)),
              pos_progress = real (current_index st + 1)
                             / real (length (coordinates st) - 1) * 100\<rparr>]\<rparr>)"
  using update_reach [OF reg _ inside row speed dist budget] moving by simp

theorem C1_reach_next_waypoint_witness:
  "update_car_position ''car'' (ex_engine (ex_state [(0, 0), (0, 0), (0, 1)]), ex_db (Val 36))
     = Inr (ex_engine ((ex_state [(0, 0), (0, 0), (0, 1)])\<lparr>current_index := 1, progress := 50\<rparr>),
            \<lparr>cars = [ex_row (Val 36)],
             car_positions = [\<lparr>pos_car_id = ''car'', pos_lng = 0, pos_lat = 0,
                               pos_heading = calculate_bearing 0 0 0 1, pos_progress = 50\<rparr>]\<rparr>)"
  using C1_reach_next_waypoint [of "ex_engine (ex_state [(0, 0), (0, 0), (0, 1)])" "''car''"
      "ex_state [(0, 0), (0, 0), (0, 1)]" "ex_db (Val 36)" "ex_row (Val 36)" 36 0]
  by (simp add: ex_engine_def ex_state_def ex_db_def ex_row_def get_all_cars_def dict_get_def
      distance_same_point)

text \<open>C2: for a registered moving car that is not on its last waypoint, whose row gives
  the speed and whose budget is strictly less than the haversine length of the current
  segment, one call returns normally and raises no \<open>ZeroDivisionError\<close> (the division
  by the segment length is guarded: the ratio is 0 for a segment of length 0, which a
  negative budget can meet), inserts a sample at the linear interpolation
  \<open>current + ratio * (next - current)\<close> with the bearing from \<open>current\<close> to \<open>next\<close>,
  and changes of the car state only the path entry at \<open>current_index\<close>, which becomes
  the interpolated coordinate, and \<open>progress\<close>; no other registry entry changes.\<close>

theorem C2_interpolate:
  assumes reg: "car_states eng car_id = Some st"
    and moving: "status st = ''moving''"
    and inside: "current_index st + 1 < length (coordinates st)"
    and row: "find (\<lambda>c. row_id c = car_id) (get_all_cars db) = Some car"
    and speed: "dict_get (row_speed car) 30 = Some speed_kmh"
    and cur: "coordinates st ! current_index st = (lng1, lat1)"
    and nxt: "coordinates st ! (current_index st + 1) = (lng2, lat2)"
    and dist: "calculate_distance lat1 lng1 lat2 lng2 = Inr segment_distance"
    and budget: "(speed_kmh / 3.6) * update_interval eng < segment_distance"
    and ratio: "ratio = (if segment_distance = 0 then 0
                         else (speed_kmh / 3.6) * update_interval eng / segment_distance)"
    and prog: "prog = real (current_index st) / real (length (coordinates st) - 1) * 100"
  shows "update_car_position car_id (eng, db) =
     Inr (eng\<lparr>car_states := (car_states eng)(car_id \<mapsto>
            st\<lparr>coordinates := (coordinates st)
                   [current_index st := (lng1 + (lng2 - lng1) * ratio, lat1 + (lat2 - lat1) * ratio)],
               progress := prog\<rparr>)\<rparr>,
          db\<lparr>car_positions := car_positions db @
            [\<lparr>pos_car_id = car_id,
              pos_lng = lng1 + (lng2 - lng1) * ratio,
              pos_lat = lat1 + (lat2 - lat1) * ratio,
              pos_heading = calculate_bearing lng1 lat1 lng2 lat2,
              pos_progress = prog\<rparr>]\<rparr>)"
  using update_interpolate [OF reg _ inside row speed cur nxt dist budget ratio prog] moving
  by simp

theorem C2_interpolate_witness:
  "update_car_position ''car'' (ex_engine (ex_state [(0, 0), (0, 1)]), ex_db (Val 36))
     = Inr (ex_engine (ex_state [(0, 10 / (6371000 * (pi / 180))), (0, 1)]),
            \<lparr>cars = [ex_row (Val 36)],
             car_positions = [\<lparr>pos_car_id = ''car'', pos_lng = 0,
                               pos_lat = 10 / (6371000 * (pi / 180)),
                               pos_heading = calculate_bearing 0 0 0 1, pos_progress = 0\<rparr>]\<rparr>)
   \<and> update_car_position ''car'' (ex_engine (ex_state [(0, 0), (0, 0)]), ex_db (Val (- 36)))
     = Inr (ex_engine (ex_state [(0, 0), (0, 0)]),
            \<lparr>cars = [ex_row (Val (- 36))],
             car_positions = [\<lparr>pos_car_id = ''car'', pos_lng = 0, pos_lat = 0,
                               pos_heading = calculate_bearing 0 0 0 0, pos_progress = 0\<rparr>]\<rparr>)"
proof -
  have d: "calculate_distance 0 0 1 0 = Inr (6371000 * (pi / 180))"
    using distance_same_lng [of 1 0 0] by (simp add: radians_def)
  have "10 < 6371000 * (2 / 180 :: real)" by simp
  also have "\<dots> \<le> 6371000 * (pi / 180)" using pi_ge_two by simp
  finally have b: "(36 / 3.6) * update_interval (ex_engine (ex_state [(0, 0), (0, 1)]))
      < 6371000 * (pi / 180)"
    by (simp add: ex_engine_def)
  have nz: "6371000 * (pi / 180) \<noteq> 0" by simp
  have moving: "update_car_position ''car'' (ex_engine (ex_state [(0, 0), (0, 1)]), ex_db (Val 36))
     = Inr (ex_engine (ex_state [(0, 10 / (6371000 * (pi / 180))), (0, 1)]),
            \<lparr>cars = [ex_row (Val 36)],
             car_positions = [\<lparr>pos_car_id = ''car'', pos_lng = 0,
                               pos_lat = 10 / (6371000 * (pi / 180)),
                               pos_heading = calculate_bearing 0 0 0 1, pos_progress = 0\<rparr>]\<rparr>)"
    using C2_interpolate [of "ex_engine (ex_state [(0, 0), (0, 1)])" "''car''"
        "ex_state [(0, 0), (0, 1)]" "ex_db (Val 36)" "ex_row (Val 36)" 36 0 0 0 1
        "6371000 * (pi / 180)" "10 / (6371000 * (pi / 180))" 0, OF _ _ _ _ _ _ _ d b]
    by (simp add: ex_engine_def ex_state_def ex_db_def ex_row_def get_all_cars_def dict_get_def)
  have z: "calculate_distance 0 0 0 0 = Inr 0" by (rule distance_same_point)
  have zb: "(- 36 / 3.6) * update_interval (ex_engine (ex_state [(0, 0), (0, 0)])) < 0"
    by (simp add: ex_engine_def)
  have guarded: "update_car_position ''car''
       (ex_engine (ex_state [(0, 0), (0, 0)]), ex_db (Val (- 36)))
     = Inr (ex_engine (ex_state [(0, 0), (0, 0)]),
            \<lparr>cars = [ex_row (Val (- 36))],
             car_positions = [\<lparr>pos_car_id = ''car'', pos_lng = 0, pos_lat = 0,
                               pos_heading = calculate_bearing 0 0 0 0, pos_progress = 0\<rparr>]\<rparr>)"
    using C2_interpolate [of "ex_engine (ex_state [(0, 0), (0, 0)])" "''car''"
        "ex_state [(0, 0), (0, 0)]" "ex_db (Val (- 36))" "ex_row (Val (- 36))" "- 36" 0 0 0 0
        0 0 0, OF _ _ _ _ _ _ _ z zb]
    by (simp add: ex_engine_def ex_state_def ex_db_def ex_row_def get_all_cars_def dict_get_def)
  from moving guarded show ?thesis by (rule conjI)
qed

text \<open>C10: when the row found for the car has no \<open>speed\<close> key, the call moves the car
  by the budget of 30 km/h, \<open>(30 / 3.6) * update_interval\<close>: it reaches the next
  waypoint exactly when the segment is no longer than that budget, and otherwise
  interpolates by that budget over the segment length. 30 is also the default of the
  field \<open>speed\<close> of the spawn request.\<close>

theorem C10_default_speed:
  assumes reg: "car_states eng car_id = Some st"
    and moving: "status st = ''moving''"
    and inside: "current_index st + 1 < length (coordinates st)"
    and row: "find (\<lambda>c. row_id c = car_id) (get_all_cars db) = Some car"
    and absent: "row_speed car = Absent"
    and cur: "coordinates st ! current_index st = (lng1, lat1)"
    and nxt: "coordinates st ! (current_index st + 1) = (lng2, lat2)"
    and dist: "calculate_distance lat1 lng1 lat2 lng2 = Inr segment_distance"
    and budget: "budget = (30 / 3.6) * update_interval eng"
    and ratio: "ratio = (if segment_distance = 0 then 0 else budget / segment_distance)"
  shows "SpawnCarRequest_speed Absent = Some 30
   \<and> update_car_position car_id (eng, db) =
     (if segment_distance \<le> budget
      then
        Inr (eng\<lparr>car_states := (car_states eng)(car_id \<mapsto>
               st\<lparr>current_index := current_index st + 1,
                  progress := real (current_index st + 1)
                              / real (length (coordinates st) - 1) * 100\<rparr>)\<rparr>,
             db\<lparr>car_positions := car_positions db @
               [\<lparr>pos_car_id = car_id, pos_lng = lng2, pos_lat = lat2,
                 pos_heading =
                   (if current_index st + 2 < length (coordinates st)
                    then calculate_bearing lng2 lat2
                           (fst (coordinates st ! (current_index st + 2)))
                           (snd (coordinates st ! (current_index st + 2)))
                    else (case get_car_latest_position db car_id of
                            Some latest_pos \<Rightarrow> pos_heading latest_pos
                          | None \<Rightarrow> 0)),
                 pos_progress = real (current_index st + 1)
                                / real (length (coordinates st) - 1) * 100\<rparr>]\<rparr>)
      else
        Inr (eng\<lparr>car_states := (car_states eng)(car_id \<mapsto>
               st\<lparr>coordinates := (coordinates st)
                      [current_index st :=
                         (lng1 + (lng2 - lng1) * ratio, lat1 + (lat2 - lat1) * ratio)],
                  progress := real (current_index st)
                              / real (length (coordinates st) - 1) * 100\<rparr>)\<rparr>,
             db\<lparr>car_positions := car_positions db @
               [\<lparr>pos_car_id = car_id,
                 pos_lng = lng1 + (lng2 - lng1) * ratio,
                 pos_lat = lat1 + (lat2 - lat1) * ratio,
                 pos_heading = calculate_bearing lng1 lat1 lng2 lat2,
                 pos_progress = real (current_index st)
                                / real (length (coordinates st) - 1) * 100\<rparr>]\<rparr>))"
proof -
  have sp: "dict_get (row_speed car) 30 = Some 30" by (simp add: absent dict_get_def)
  have mv: "status st \<noteq> ''finished''" using moving by simp
  have dflt: "SpawnCarRequest_speed Absent = Some 30"
    by (simp add: SpawnCarRequest_speed_def dict_get_def)
  show ?thesis
  proof (cases "segment_distance \<le> budget")
    case True
    then have b: "segment_distance \<le> (30 / 3.6) * update_interval eng" by (simp add: budget)
    have d: "calculate_distance (snd (coordinates st ! current_index st))
        (fst (coordinates st ! current_index st))
        (snd (coordinates st ! (current_index st + 1)))
        (fst (coordinates st ! (current_index st + 1))) = Inr segment_distance"
      using dist by (simp only: cur nxt fst_conv snd_conv)
    from update_reach [OF reg mv inside row sp d b] True dflt
    show ?thesis by (simp only: nxt fst_conv snd_conv if_True simp_thms)
  next
    case False
    then have b: "(30 / 3.6) * update_interval eng < segment_distance" by (simp add: budget)
    have r: "ratio = (if segment_distance = 0 then 0
        else (30 / 3.6) * update_interval eng / segment_distance)"
      by (simp only: ratio budget)
    from update_interpolate [OF reg mv inside row sp cur nxt dist b r refl] False dflt
    show ?thesis by (simp only: if_False simp_thms)
  qed
qed

theorem C10_default_speed_witness:
  "update_car_position ''car'' (ex_engine (ex_state [(0, 0), (0, 1)]), ex_db Absent)
     = Inr (ex_engine (ex_state [(0, (25 / 3) / (6371000 * (pi / 180))), (0, 1)]),
            \<lparr>cars = [ex_row Absent],
             car_positions = [\<lparr>pos_car_id = ''car'', pos_lng = 0,
                               pos_lat = (25 / 3) / (6371000 * (pi / 180)),
                               pos_heading = calculate_bearing 0 0 0 1, pos_progress = 0\<rparr>]\<rparr>)"
proof -
  have d: "calculate_distance 0 0 1 0 = Inr (6371000 * (pi / 180))"
    using distance_same_lng [of 1 0 0] by (simp add: radians_def)
  have "25 / 3 < 6371000 * (2 / 180 :: real)" by simp
  also have "\<dots> \<le> 6371000 * (pi / 180)" using pi_ge_two by simp
  finally have far: "\<not> 6371000 * (pi / 180) \<le> (25 / 3 :: real)" by simp
  have nz: "6371000 * (pi / 180) \<noteq> 0" by simp
  show ?thesis
    using C10_default_speed [of "ex_engine (ex_state [(0, 0), (0, 1)])" "''car''"
        "ex_state [(0, 0), (0, 1)]" "ex_db Absent" "ex_row Absent" 0 0 0 1
        "6371000 * (pi / 180)" "25 / 3" "(25 / 3) / (6371000 * (pi / 180))", OF _ _ _ _ _ _ _ d]
      far nz
    by (simp add: ex_engine_def ex_state_def ex_db_def ex_row_def get_all_cars_def)
qed

section \<open>Rounding to doubles\<close>

text \<open>Rounding moves a number by at most half a unit in the last place, that is by at
  most \<open>2^-53\<close> of its size; inside one binade it is a rounding of the significand.\<close>

lemma round_half_even_error: "\<bar>of_int (round_half_even y) - y\<bar> \<le> 1 / 2"
proof -
  have "of_int \<lfloor>y\<rfloor> \<le> y" "y < of_int \<lfloor>y\<rfloor> + 1" by linarith+
  then show ?thesis
    by (auto simp: round_half_even_def Let_def)
qed

lemma round_half_even_int: "round_half_even (of_int n) = n"
  by (simp add: round_half_even_def Let_def)

lemma fl_zero: "fl 0 = 0"
  by (simp add: fl_def)

lemma fl_error: "\<bar>fl x - x\<bar> \<le> \<bar>x\<bar> / 2 ^ 53"
proof (cases "x = 0")
  case True
  then show ?thesis by (simp add: fl_def)
next
  case False
  define e where "e = \<lfloor>log 2 \<bar>x\<bar>\<rfloor>"
  define ulp :: real where "ulp = 2 powr (of_int e - 52)"
  have ulp0: "0 < ulp" by (simp add: ulp_def)
  have "of_int e \<le> log 2 \<bar>x\<bar>" unfolding e_def by (rule of_int_floor_le)
  then have "2 powr (of_int e) \<le> 2 powr (log 2 \<bar>x\<bar>)" by simp
  then have lo: "2 powr (of_int e) \<le> \<bar>x\<bar>" using False by simp
  have "ulp = 2 powr (of_int e) * 2 powr (- 52)"
    unfolding ulp_def by (simp add: powr_add [symmetric])
  also have "2 powr (- 52) = (1 / 2 ^ 52 :: real)"
    by (simp add: powr_minus_divide)
  finally have u: "ulp = 2 powr (of_int e) / 2 ^ 52" by simp
  have f: "fl x = ulp * of_int (round_half_even (x / ulp))"
    using False by (simp add: fl_def Let_def e_def ulp_def)
  have "fl x - x = ulp * (of_int (round_half_even (x / ulp)) - x / ulp)"
    using ulp0 by (simp add: f algebra_simps)
  then have "\<bar>fl x - x\<bar> = ulp * \<bar>of_int (round_half_even (x / ulp)) - x / ulp\<bar>"
    using ulp0 by (simp add: abs_mult)
  also have "\<dots> \<le> ulp * (1 / 2)"
    using ulp0 round_half_even_error [of "x / ulp"] by (intro mult_left_mono) simp_all
  also have "\<dots> = 2 powr (of_int e) / 2 ^ 53" by (simp add: u)
  also have "\<dots> \<le> \<bar>x\<bar> / 2 ^ 53" using lo by (simp add: divide_right_mono)
  finally show ?thesis .
qed

lemma fl_in_binade:
  assumes lo: "2 powr (of_int e) \<le> \<bar>x\<bar>" and hi: "\<bar>x\<bar> < 2 powr (of_int e + 1)"
  shows "fl x = 2 powr (of_int e - 52) * of_int (round_half_even (x / 2 powr (of_int e - 52)))"
proof -
  have x0: "x \<noteq> 0" using lo by (auto simp: not_le [symmetric])
  then have ax: "0 < \<bar>x\<bar>" by simp
  have "log 2 (2 powr of_int e) \<le> log 2 \<bar>x\<bar>"
    using lo ax by (subst log_le_cancel_iff) simp_all
  then have a: "of_int e \<le> log 2 \<bar>x\<bar>" by simp
  have "log 2 \<bar>x\<bar> < log 2 (2 powr (of_int e + 1))"
    using hi ax by (subst log_less_cancel_iff) simp_all
  then have b: "log 2 \<bar>x\<bar> < of_int e + 1" by simp
  from a b have "\<lfloor>log 2 \<bar>x\<bar>\<rfloor> = e" by (simp add: floor_eq_iff)
  then show ?thesis using x0 by (simp add: fl_def Let_def)
qed

lemma fl_half_to_one:
  assumes "1 / 2 \<le> \<bar>x\<bar>" "\<bar>x\<bar> < 1"
  shows "fl x = of_int (round_half_even (x * 2 ^ 53)) / 2 ^ 53"
proof -
  have p: "2 powr (of_int (- 1) - 52) = (1 / 2 ^ 53 :: real)"
    by (simp add: powr_minus_divide)
  have "2 powr (of_int (- 1)) = (1 / 2 :: real)" by (simp add: powr_minus_divide)
  with fl_in_binade [of "- 1" x] assms
  have "fl x = 2 powr (of_int (- 1) - 52) * of_int (round_half_even (x / 2 powr (of_int (- 1) - 52)))"
    by simp
  then show ?thesis unfolding p by simp
qed

lemma fl_one: "fl 1 = 1"
proof -
  have p: "2 powr (of_int 0 - 52) = (1 / 2 ^ 52 :: real)"
    by (simp add: powr_minus_divide)
  have "fl 1 = 2 powr (of_int 0 - 52) * of_int (round_half_even (1 / 2 powr (of_int 0 - 52)))"
    by (rule fl_in_binade) simp_all
  also have "\<dots> = (1 / 2 ^ 52) * of_int (round_half_even (of_int (2 ^ 52)))"
    unfolding p by simp
  also have "\<dots> = 1" unfolding round_half_even_int by simp
  finally show ?thesis .
qed

lemma fl_two_tenths: "fl (2 / 10) = 3602879701896397 / 2 ^ 54"
proof -
  have p: "2 powr (of_int (- 3) - 52) = (1 / 2 ^ 55 :: real)"
    by (simp add: powr_minus_divide)
  have q: "2 powr (of_int (- 3)) = (1 / 8 :: real)" "2 powr (of_int (- 3) + 1) = (1 / 4 :: real)"
    by (simp_all add: powr_minus_divide)
  have "fl (2 / 10) = 2 powr (of_int (- 3) - 52)
      * of_int (round_half_even ((2 / 10) / 2 powr (of_int (- 3) - 52)))"
    by (rule fl_in_binade) (use q in simp_all)
  also have "\<dots> = (1 / 2 ^ 55) * of_int (round_half_even (2 ^ 55 / 5))"
    unfolding p by simp
  also have "round_half_even (2 ^ 55 / 5) = 7205759403792794"
    by (simp add: round_half_even_def Let_def)
  finally show ?thesis by simp
qed

lemma fl_nine_tenths: "fl (9 / 10) = 8106479329266893 / 2 ^ 53"
proof -
  have "fl (9 / 10) = of_int (round_half_even ((9 / 10) * 2 ^ 53)) / 2 ^ 53"
    by (rule fl_half_to_one) simp_all
  also have "round_half_even ((9 / 10) * 2 ^ 53) = 8106479329266893"
    by (simp add: round_half_even_def Let_def)
  finally show ?thesis by simp
qed


text \<open>The last point of the straight line is the end up to three roundings.\<close>

lemma last_point_error:
  "\<bar>fl (s + fl (fl (e - s) * fl (10 / 10))) - e\<bar> \<le> (\<bar>e - s\<bar> + \<bar>e\<bar>) / 2 ^ 51"
proof -
  define u :: real where "u = 1 / 2 ^ 53"
  define D where "D = e - s"
  define d1 where "d1 = fl D"
  define d2 where "d2 = fl d1"
  define c where "c = fl (s + d2)"
  have u0: "0 \<le> u" and u1: "3 * u \<le> 1" by (simp_all add: u_def)
  have c_eq: "fl (s + fl (fl (e - s) * fl (10 / 10))) = c"
    by (simp add: fl_one c_def d2_def d1_def D_def)
  have e1: "\<bar>d1 - D\<bar> \<le> \<bar>D\<bar> * u" using fl_error [of D] by (simp add: d1_def u_def)
  have e2: "\<bar>d2 - d1\<bar> \<le> \<bar>d1\<bar> * u" using fl_error [of d1] by (simp add: d2_def u_def)
  have e3: "\<bar>c - (s + d2)\<bar> \<le> \<bar>s + d2\<bar> * u"
    using fl_error [of "s + d2"] by (simp add: c_def u_def)
  have Du: "\<bar>D\<bar> * u \<le> \<bar>D\<bar> * 1" using u1 u0 by (intro mult_left_mono) simp_all
  have a1: "\<bar>d1\<bar> \<le> 2 * \<bar>D\<bar>" using e1 Du by simp
  have "\<bar>d1\<bar> * u \<le> (2 * \<bar>D\<bar>) * u" using a1 u0 by (rule mult_right_mono)
  with e2 have e2': "\<bar>d2 - d1\<bar> \<le> 2 * (\<bar>D\<bar> * u)" by simp
  from e1 e2' have e12: "\<bar>d2 - D\<bar> \<le> 3 * (\<bar>D\<bar> * u)" by simp
  have "\<bar>D\<bar> * (3 * u) \<le> \<bar>D\<bar> * 1" using u1 by (intro mult_left_mono) simp_all
  then have D3: "3 * (\<bar>D\<bar> * u) \<le> \<bar>D\<bar>" by simp
  have s2: "s + d2 = e + (d2 - D)" by (simp add: D_def)
  have a2: "\<bar>s + d2\<bar> \<le> \<bar>e\<bar> + \<bar>D\<bar>" unfolding s2 using e12 D3 by simp
  have "\<bar>s + d2\<bar> * u \<le> (\<bar>e\<bar> + \<bar>D\<bar>) * u" using a2 u0 by (rule mult_right_mono)
  with e3 have e3': "\<bar>c - (s + d2)\<bar> \<le> \<bar>e\<bar> * u + \<bar>D\<bar> * u" by (simp add: algebra_simps)
  have "c - e = (c - (s + d2)) + (d2 - D)" by (simp add: D_def)
  then have "\<bar>c - e\<bar> \<le> \<bar>c - (s + d2)\<bar> + \<bar>d2 - D\<bar>" by simp
  with e3' e12 have "\<bar>c - e\<bar> \<le> 4 * (\<bar>D\<bar> * u) + \<bar>e\<bar> * u" by simp
  also have "\<dots> \<le> 4 * (\<bar>D\<bar> * u) + 4 * (\<bar>e\<bar> * u)" using u0 by simp
  also have "\<dots> = (\<bar>D\<bar> + \<bar>e\<bar>) / 2 ^ 51" by (simp add: u_def algebra_simps)
  finally show ?thesis unfolding c_eq D_def .
qed

lemma first_point_exact: "fl s = s \<Longrightarrow> fl (s + fl (fl (e - s) * fl (0 / 10))) = s"
  by (simp add: fl_zero)

section \<open>Route acquisition never fails\<close>

text \<open>The argument of \<open>math.sqrt\<close> in the fallback is a sum of two squares, so the
  fallback always returns.\<close>

lemma straight_line_route_value:
  "straight_line_route start_lng start_lat end_lng end_lat =
     Inr \<lparr>osrm_geometry =
            \<lparr>geo_type = ''LineString'',
             geo_coordinates = straight_line_coordinates start_lng start_lat end_lng end_lat\<rparr>,
          osrm_distance =
            sqrt (((end_lng - start_lng) * 111.32 * cos (radians start_lat))\<^sup>2
                  + ((end_lat - start_lat) * 110.57)\<^sup>2) * 1000,
          osrm_duration =
            sqrt (((end_lng - start_lng) * 111.32 * cos (radians start_lat))\<^sup>2
                  + ((end_lat - start_lat) * 110.57)\<^sup>2) * 1000 / 10,
          osrm_coordinates = straight_line_coordinates start_lng start_lat end_lng end_lat\<rparr>"
proof -
  define dx where "dx = (end_lng - start_lng) * 111.32 * cos (radians start_lat)"
  define dy where "dy = (end_lat - start_lat) * 110.57"
  have nn: "\<not> dx * dx + dy * dy < 0" by (simp add: not_less)
  have sq: "dx * dx + dy * dy = dx\<^sup>2 + dy\<^sup>2" by (simp add: power2_eq_square)
  show ?thesis
    unfolding straight_line_route_def Let_def dx_def [symmetric] dy_def [symmetric] py_sqrt_def
    using nn by (simp add: sq)
qed

lemma straight_line_coordinates_nth:
  "i \<le> 10 \<Longrightarrow> straight_line_coordinates start_lng start_lat end_lng end_lat ! i =
     (fl (start_lng + fl (fl (end_lng - start_lng) * fl (real i / 10))),
      fl (start_lat + fl (fl (end_lat - start_lat) * fl (real i / 10))))"
  unfolding straight_line_coordinates_def Let_def
  by (simp del: upt_Suc)

lemma straight_line_coordinates_length:
  "length (straight_line_coordinates start_lng start_lat end_lng end_lat) = 11"
  by (simp add: straight_line_coordinates_def Let_def del: upt_Suc)





text \<open>C6, as stated, fails in the doubles of the source: for the start latitude 0.2 and
  the end latitude 0.9 (the doubles nearest to them), the last coordinate of the
  straight line is one unit in the last place below the end.\<close>

theorem C6_last_point_counterexample:
  "route_point 10 (get_route RequestFailed RequestFailed 0 (fl (2 / 10)) 0 (fl (9 / 10)))
     = Some (0, fl (9 / 10) - 1 / 2 ^ 53)
   \<and> route_point 10 (get_route RequestFailed RequestFailed 0 (fl (2 / 10)) 0 (fl (9 / 10)))
     \<noteq> Some (0, fl (9 / 10))"
proof -
  define s :: real where "s = 3602879701896397 / 2 ^ 54"
  define e :: real where "e = 8106479329266893 / 2 ^ 53"
  have d1: "fl (e - s) = 6305039478318694 / 2 ^ 53"
  proof -
    have "fl (e - s) = of_int (round_half_even ((e - s) * 2 ^ 53)) / 2 ^ 53"
      by (rule fl_half_to_one) (simp_all add: e_def s_def)
    also have "round_half_even ((e - s) * 2 ^ 53) = 6305039478318694"
      by (simp add: round_half_even_def Let_def e_def s_def)
    finally show ?thesis by simp
  qed
  have d2: "fl (6305039478318694 / 2 ^ 53) = 6305039478318694 / 2 ^ 53"
  proof -
    have "fl (6305039478318694 / 2 ^ 53)
        = of_int (round_half_even ((6305039478318694 / 2 ^ 53) * 2 ^ 53)) / 2 ^ 53"
      by (rule fl_half_to_one) simp_all
    also have "round_half_even ((6305039478318694 / 2 ^ 53) * 2 ^ 53) = 6305039478318694"
      by (simp add: round_half_even_def Let_def)
    finally show ?thesis by simp
  qed
  have c: "fl (s + 6305039478318694 / 2 ^ 53) = 8106479329266892 / 2 ^ 53"
  proof -
    have "fl (s + 6305039478318694 / 2 ^ 53)
        = of_int (round_half_even ((s + 6305039478318694 / 2 ^ 53) * 2 ^ 53)) / 2 ^ 53"
      by (rule fl_half_to_one) (simp_all add: s_def)
    also have "round_half_even ((s + 6305039478318694 / 2 ^ 53) * 2 ^ 53) = 8106479329266892"
      by (simp add: round_half_even_def Let_def s_def)
    finally show ?thesis by simp
  qed
  have t: "fl (real 10 / 10) = 1" by (simp add: fl_one)
  have "fl (s + fl (fl (e - s) * fl (real 10 / 10))) = 8106479329266892 / 2 ^ 53"
    unfolding t d1 mult.right_neutral d2 c ..
  then have lat: "fl (s + fl (fl (e - s) * fl (real 10 / 10))) = e - 1 / 2 ^ 53"
    by (simp add: e_def)
  have lng: "fl (0 + fl (fl (0 - 0) * fl (real 10 / 10))) = 0"
    by (simp add: fl_one fl_zero)
  have p: "route_point 10 (get_route RequestFailed RequestFailed 0 s 0 e)
      = Some (0, e - 1 / 2 ^ 53)"
    using straight_line_coordinates_nth [of 10 0 s 0 e] lat lng
    by (simp add: route_point_def get_route_def parse_route_def straight_line_route_value
        straight_line_coordinates_length)
  have se: "fl (2 / 10) = s" "fl (9 / 10) = e"
    unfolding s_def e_def by (rule fl_two_tenths) (rule fl_nine_tenths)
  show ?thesis unfolding se p by simp
qed

text \<open>C6, amended: when both requests fail, the returned route has exactly 11
  coordinates, the \<open>i\<close>-th being \<open>start + (end - start) * (i / 10)\<close> in each component
  with every operation rounded to a double, so that for a start that is a double the
  first coordinate is the start exactly, and the last is the end within floating
  tolerance, at most \<open>(|end - start| + |end|) / 2^51\<close> away in each component; the
  distance is \<open>sqrt ((dlng * 111.32 * cos lat)\<^sup>2 + (dlat * 110.57)\<^sup>2) * 1000\<close>, the cosine
  being that of the start latitude converted from degrees to radians, and the duration
  is the distance divided by 10.\<close>

theorem C6_straight_line_tier:
  assumes "parse_route local_response = Inl e1"
    and "parse_route public_response = Inl e2"
    and "fl start_lng = start_lng"
    and "fl start_lat = start_lat"
  shows "\<exists>route. get_route local_response public_response start_lng start_lat end_lng end_lat
                   = Inr route
     \<and> length (osrm_coordinates route) = 11
     \<and> (\<forall>i\<le>10. osrm_coordinates route ! i =
            (fl (start_lng + fl (fl (end_lng - start_lng) * fl (real i / 10))),
             fl (start_lat + fl (fl (end_lat - start_lat) * fl (real i / 10)))))
     \<and> osrm_coordinates route ! 0 = (start_lng, start_lat)
     \<and> \<bar>fst (osrm_coordinates route ! 10) - end_lng\<bar>
          \<le> (\<bar>end_lng - start_lng\<bar> + \<bar>end_lng\<bar>) / 2 ^ 51
     \<and> \<bar>snd (osrm_coordinates route ! 10) - end_lat\<bar>
          \<le> (\<bar>end_lat - start_lat\<bar> + \<bar>end_lat\<bar>) / 2 ^ 51
     \<and> geo_coordinates (osrm_geometry route) = osrm_coordinates route
     \<and> osrm_distance route =
           sqrt (((end_lng - start_lng) * 111.32 * cos (radians start_lat))\<^sup>2
                 + ((end_lat - start_lat) * 110.57)\<^sup>2) * 1000
     \<and> osrm_duration route = osrm_distance route / 10"
proof -
  have p0: "straight_line_coordinates start_lng start_lat end_lng end_lat ! 0
      = (start_lng, start_lat)"
    using straight_line_coordinates_nth [of 0 start_lng start_lat end_lng end_lat] assms(3,4)
    by (simp add: fl_zero)
  have p10: "straight_line_coordinates start_lng start_lat end_lng end_lat ! 10
      = (fl (start_lng + fl (fl (end_lng - start_lng) * fl (10 / 10))),
         fl (start_lat + fl (fl (end_lat - start_lat) * fl (10 / 10))))"
    using straight_line_coordinates_nth [of 10 start_lng start_lat end_lng end_lat] by simp
  have t1: "\<bar>fst (straight_line_coordinates start_lng start_lat end_lng end_lat ! 10) - end_lng\<bar>
      \<le> (\<bar>end_lng - start_lng\<bar> + \<bar>end_lng\<bar>) / 2 ^ 51"
    unfolding p10 fst_conv by (rule last_point_error)
  have t2: "\<bar>snd (straight_line_coordinates start_lng start_lat end_lng end_lat ! 10) - end_lat\<bar>
      \<le> (\<bar>end_lat - start_lat\<bar> + \<bar>end_lat\<bar>) / 2 ^ 51"
    unfolding p10 snd_conv by (rule last_point_error)
  show ?thesis
    using assms(1,2) p0 t1 t2
    by (simp add: get_route_def straight_line_route_value straight_line_coordinates_length
        straight_line_coordinates_nth)
qed


theorem C6_straight_line_tier_witness:
  "\<exists>route. get_route RequestFailed NotJson 1 1 3 5 = Inr route
     \<and> length (osrm_coordinates route) = 11
     \<and> osrm_coordinates route ! 3 =
           (fl (1 + fl (fl (3 - 1) * fl (real 3 / 10))), fl (1 + fl (fl (5 - 1) * fl (real 3 / 10))))
     \<and> osrm_coordinates route ! 0 = (1, 1)
     \<and> \<bar>fst (osrm_coordinates route ! 10) - 3\<bar> \<le> (\<bar>3 - 1\<bar> + \<bar>3\<bar>) / 2 ^ 51
     \<and> \<bar>snd (osrm_coordinates route ! 10) - 5\<bar> \<le> (\<bar>5 - 1\<bar> + \<bar>5\<bar>) / 2 ^ 51
     \<and> osrm_duration route = osrm_distance route / 10"
proof -
  have f: "parse_route RequestFailed = Inl HTTPError" "parse_route NotJson = Inl JSONDecodeError"
    by (simp_all add: parse_route_def)
  from C6_straight_line_tier [OF f fl_one fl_one, of 3 5]
  obtain route where r: "get_route RequestFailed NotJson 1 1 3 5 = Inr route"
    "length (osrm_coordinates route) = 11"
    "\<forall>i\<le>10. osrm_coordinates route ! i =
       (fl (1 + fl (fl (3 - 1) * fl (real i / 10))), fl (1 + fl (fl (5 - 1) * fl (real i / 10))))"
    "osrm_coordinates route ! 0 = (1, 1)"
    "\<bar>fst (osrm_coordinates route ! 10) - 3\<bar> \<le> (\<bar>3 - 1\<bar> + \<bar>3\<bar>) / 2 ^ 51"
    "\<bar>snd (osrm_coordinates route ! 10) - 5\<bar> \<le> (\<bar>5 - 1\<bar> + \<bar>5\<bar>) / 2 ^ 51"
    "osrm_duration route = osrm_distance route / 10"
    by blast
  have "(3::nat) \<le> 10" by simp
  with r(3) have "osrm_coordinates route ! 3 =
      (fl (1 + fl (fl (3 - 1) * fl (real 3 / 10))), fl (1 + fl (fl (5 - 1) * fl (real 3 / 10))))"
    by blast
  with r show ?thesis by blast
qed

section \<open>Progress along a sequence of calls\<close>

text \<open>What one call does to the registry, branch by branch.\<close>

lemma update_unregistered:
  "car_states eng car_id = None \<Longrightarrow> update_car_position car_id (eng, db) = Inr (eng, db)"
  by (simp add: update_car_position_def)

lemma update_finished:
  "car_states eng car_id = Some st \<Longrightarrow> status st = ''finished''
     \<Longrightarrow> update_car_position car_id (eng, db) = Inr (eng, db)"
  by (simp add: update_car_position_def)

lemma update_at_end:
  "car_states eng car_id = Some st \<Longrightarrow> status st \<noteq> ''finished''
     \<Longrightarrow> length (coordinates st) \<le> current_index st + 1
     \<Longrightarrow> update_car_position car_id (eng, db) =
          Inr (eng\<lparr>car_states := (car_states eng)(car_id \<mapsto>
                 st\<lparr>status := ''finished'', progress := 100\<rparr>)\<rparr>,
               update_car_status car_id ''finished'' db)"
  by (simp add: update_car_position_def finish_car_def Let_def)

lemma update_row_deleted:
  "car_states eng car_id = Some st \<Longrightarrow> status st \<noteq> ''finished''
     \<Longrightarrow> current_index st + 1 < length (coordinates st)
     \<Longrightarrow> find (\<lambda>c. row_id c = car_id) (get_all_cars db) = None
     \<Longrightarrow> update_car_position car_id (eng, db) =
          Inr (eng\<lparr>car_states := (car_states eng)(car_id := None)\<rparr>, db)"
  by (simp add: update_car_position_def Let_def)

lemma update_null_speed:
  "car_states eng car_id = Some st \<Longrightarrow> status st \<noteq> ''finished''
     \<Longrightarrow> current_index st + 1 < length (coordinates st)
     \<Longrightarrow> find (\<lambda>c. row_id c = car_id) (get_all_cars db) = Some car
     \<Longrightarrow> dict_get (row_speed car) 30 = None
     \<Longrightarrow> update_car_position car_id (eng, db) = Inl (TypeError, (eng, db))"
  by (simp add: update_car_position_def Let_def)

lemma update_moves:
  assumes reg: "car_states eng car_id = Some st"
    and moving: "status st \<noteq> ''finished''"
    and inside: "current_index st + 1 < length (coordinates st)"
    and row: "find (\<lambda>c. row_id c = car_id) (get_all_cars db) = Some car"
    and speed: "dict_get (row_speed car) 30 = Some speed_kmh"
  shows "\<exists>db' st'. update_car_position car_id (eng, db) =
            Inr (eng\<lparr>car_states := (car_states eng)(car_id \<mapsto> st')\<rparr>, db')
          \<and> status st' = status st
          \<and> length (coordinates st') = length (coordinates st)
          \<and> progress st' = real (current_index st') / real (length (coordinates st) - 1) * 100
          \<and> (current_index st' = current_index st \<or> current_index st' = current_index st + 1)"
proof -
  obtain lng1 lat1 where cur: "coordinates st ! current_index st = (lng1, lat1)"
    by (cases "coordinates st ! current_index st")
  obtain lng2 lat2 where nxt: "coordinates st ! (current_index st + 1) = (lng2, lat2)"
    by (cases "coordinates st ! (current_index st + 1)")
  obtain d where dist: "calculate_distance lat1 lng1 lat2 lng2 = Inr d"
    by (simp add: calculate_distance_value)
  show ?thesis
  proof (cases "d \<le> (speed_kmh / 3.6) * update_interval eng")
    case True
    from dist have "calculate_distance (snd (coordinates st ! current_index st))
        (fst (coordinates st ! current_index st))
        (snd (coordinates st ! (current_index st + 1)))
        (fst (coordinates st ! (current_index st + 1))) = Inr d"
      by (simp only: cur nxt fst_conv snd_conv)
    from update_reach [OF reg moving inside row speed this True]
    show ?thesis by (intro exI conjI, assumption) simp_all
  next
    case False
    then have b: "(speed_kmh / 3.6) * update_interval eng < d" by simp
    from update_interpolate [OF reg moving inside row speed cur nxt dist b refl refl]
    show ?thesis by (intro exI conjI, assumption) simp_all
  qed
qed

text \<open>One call keeps the invariant of the car it is about, and touches no other car.\<close>

lemma step_same:
  assumes r: "update_car_position car_id (eng, db) = Inr w2
              \<or> update_car_position car_id (eng, db) = Inl (e, w2)"
    and reg: "car_states eng car_id = Some s"
    and inv: "car_inv s"
  shows "car_states (fst w2) car_id = None
         \<or> (\<exists>s'. car_states (fst w2) car_id = Some s' \<and> car_inv s' \<and> car_le s s')"
proof (cases "status s = ''finished''")
  case True
  from update_finished [OF reg True, of db] r have "fst w2 = eng" by auto
  then show ?thesis using reg inv by (simp add: car_le_def)
next
  case moving: False
  show ?thesis
  proof (cases "length (coordinates s) \<le> current_index s + 1")
    case True
    from update_at_end [OF reg moving True, of db] r
    have "car_states (fst w2) car_id = Some (s\<lparr>status := ''finished'', progress := 100\<rparr>)"
      by auto
    moreover have "car_inv (s\<lparr>status := ''finished'', progress := 100\<rparr>)"
    proof -
      from inv True have e: "current_index s + 1 = length (coordinates s)"
        and l: "2 \<le> length (coordinates s)" by (simp_all add: car_inv_def)
      then have "length (coordinates s) - 1 = current_index s" "0 < current_index s"
        by simp_all
      then have "real (current_index s) / real (length (coordinates s) - 1) * 100 = 100"
        by simp
      with e l show ?thesis by (simp add: car_inv_def)
    qed
    moreover have "car_le s (s\<lparr>status := ''finished'', progress := 100\<rparr>)"
      using moving by (simp add: car_le_def)
    ultimately show ?thesis by blast
  next
    case False
    then have inside: "current_index s + 1 < length (coordinates s)" by simp
    show ?thesis
    proof (cases "find (\<lambda>c. row_id c = car_id) (get_all_cars db)")
      case None
      from update_row_deleted [OF reg moving inside None] r show ?thesis by auto
    next
      case (Some car)
      show ?thesis
      proof (cases "dict_get (row_speed car) 30")
        case None
        from update_null_speed [OF reg moving inside Some None] r have "fst w2 = eng" by auto
        then show ?thesis using reg inv by (simp add: car_le_def)
      next
        case (Some speed_kmh)
        from update_moves [OF reg moving inside \<open>find _ _ = Some car\<close> Some]
        obtain db' st' where u: "update_car_position car_id (eng, db) =
              Inr (eng\<lparr>car_states := (car_states eng)(car_id \<mapsto> st')\<rparr>, db')"
          and st: "status st' = status s"
          and ln: "length (coordinates st') = length (coordinates s)"
          and pr: "progress st' = real (current_index st') / real (length (coordinates s) - 1) * 100"
          and ix: "current_index st' = current_index s \<or> current_index st' = current_index s + 1"
          by blast
        from u r have "car_states (fst w2) car_id = Some st'" by auto
        moreover have "car_inv st'"
          using inv inside moving st ln pr ix by (auto simp: car_inv_def)
        moreover have "car_le s st'"
          using moving ln ix by (auto simp: car_le_def)
        ultimately show ?thesis by blast
      qed
    qed
  qed
qed

lemma step_other:
  assumes r: "update_car_position car_id' (eng, db) = Inr w2
              \<or> update_car_position car_id' (eng, db) = Inl (e, w2)"
    and ne: "car_id \<noteq> car_id'"
  shows "car_states (fst w2) car_id = car_states eng car_id"
proof (cases "car_states eng car_id'")
  case None
  from update_unregistered [OF None, of db] r show ?thesis by auto
next
  case (Some s)
  note reg = Some
  show ?thesis
  proof (cases "status s = ''finished''")
    case True
    from update_finished [OF reg True, of db] r show ?thesis by auto
  next
    case moving: False
    show ?thesis
    proof (cases "length (coordinates s) \<le> current_index s + 1")
      case True
      from update_at_end [OF reg moving True, of db] r ne show ?thesis by auto
    next
      case False
      then have inside: "current_index s + 1 < length (coordinates s)" by simp
      show ?thesis
      proof (cases "find (\<lambda>c. row_id c = car_id') (get_all_cars db)")
        case None
        from update_row_deleted [OF reg moving inside None] r ne show ?thesis by auto
      next
        case (Some car)
        show ?thesis
        proof (cases "dict_get (row_speed car) 30")
          case None
          from update_null_speed [OF reg moving inside Some None] r show ?thesis by auto
        next
          case (Some speed_kmh)
          from update_moves [OF reg moving inside \<open>find _ _ = Some car\<close> Some] r ne
          show ?thesis by auto
        qed
      qed
    qed
  qed
qed

lemma car_le_trans: "car_le a b \<Longrightarrow> car_le b c \<Longrightarrow> car_le a c"
  by (auto simp: car_le_def split: if_splits)

lemma car_le_refl: "car_le a a"
  by (simp add: car_le_def)

lemma advances_car:
  assumes "advances w1 w2"
    and "car_states (fst w1) car_id = Some s1"
    and "car_inv s1"
  shows "car_states (fst w2) car_id = None
         \<or> (\<exists>s2. car_states (fst w2) car_id = Some s2 \<and> car_inv s2 \<and> car_le s1 s2)"
  using assms
proof (induction rule: advances.induct)
  case (advances_refl w)
  then show ?case by (simp add: car_le_refl)
next
  case (advances_return w eng1 db1 car_id' db2 w2)
  from advances_return.IH [OF advances_return.prems]
  show ?case
  proof
    assume n: "car_states (fst (eng1, db1)) car_id = None"
    show ?thesis
    proof (cases "car_id = car_id'")
      case True
      with n update_unregistered [of eng1 car_id db2] advances_return.hyps(2)
      show ?thesis by auto
    next
      case False
      from step_other [OF disjI1 [OF advances_return.hyps(2)] False] n show ?thesis by simp
    qed
  next
    assume "\<exists>s2. car_states (fst (eng1, db1)) car_id = Some s2 \<and> car_inv s2 \<and> car_le s1 s2"
    then obtain s where s: "car_states eng1 car_id = Some s" "car_inv s" "car_le s1 s" by auto
    show ?thesis
    proof (cases "car_id = car_id'")
      case True
      from step_same [OF disjI1 s(1,2)] advances_return.hyps(2) True s(3)
      show ?thesis by (metis car_le_trans)
    next
      case False
      from step_other [OF disjI1 [OF advances_return.hyps(2)] False] s show ?thesis by simp
    qed
  qed
next
  case (advances_raise w eng1 db1 car_id' db2 e w2)
  from advances_raise.IH [OF advances_raise.prems]
  show ?case
  proof
    assume n: "car_states (fst (eng1, db1)) car_id = None"
    show ?thesis
    proof (cases "car_id = car_id'")
      case True
      with n update_unregistered [of eng1 car_id db2] advances_raise.hyps(2)
      show ?thesis by auto
    next
      case False
      from step_other [OF disjI2 [OF advances_raise.hyps(2)] False] n show ?thesis by simp
    qed
  next
    assume "\<exists>s2. car_states (fst (eng1, db1)) car_id = Some s2 \<and> car_inv s2 \<and> car_le s1 s2"
    then obtain s where s: "car_states eng1 car_id = Some s" "car_inv s" "car_le s1 s" by auto
    show ?thesis
    proof (cases "car_id = car_id'")
      case True
      from step_same [OF disjI2 s(1,2)] advances_raise.hyps(2) True s(3)
      show ?thesis by (metis car_le_trans)
    next
      case False
      from step_other [OF disjI2 [OF advances_raise.hyps(2)] False] s show ?thesis by simp
    qed
  qed
qed


lemma add_car_inv:
  assumes "add_car car_id path w = Inr w0"
  shows "\<exists>s0. car_states (fst w0) car_id = Some s0 \<and> car_inv s0"
  using assms
  by (auto simp: add_car_def Let_def car_inv_def split: if_splits)

text \<open>C3: register a car and let any sequence of calls of \<open>update_car_position\<close> run.
  Whenever the car is registered, its progress lies in \<open>[0, 100]\<close> and equals
  \<open>current_index / (len(coordinates) - 1) * 100\<close>, and its index is at most
  \<open>len(coordinates) - 1\<close>; over any further calls after which it is still registered,
  its progress does not decrease; and once its status is \<^term>\<open>''finished''\<close> its
  progress is exactly 100 and its state never changes again.\<close>

theorem C3_progress_invariants:
  assumes reg: "add_car car_id path w = Inr w0"
    and a1: "advances w0 w1"
    and a2: "advances w1 w2"
    and s1: "car_states (fst w1) car_id = Some s1"
    and s2: "car_states (fst w2) car_id = Some s2"
  shows "0 \<le> progress s1 \<and> progress s1 \<le> 100
     \<and> progress s1 \<le> progress s2
     \<and> current_index s1 \<le> length (coordinates s1) - 1
     \<and> progress s1 = real (current_index s1) / real (length (coordinates s1) - 1) * 100
     \<and> (status s1 = ''finished'' \<longrightarrow> progress s1 = 100 \<and> s2 = s1)"
proof -
  from add_car_inv [OF reg] obtain s0
    where s0: "car_states (fst w0) car_id = Some s0" "car_inv s0" by blast
  from advances_car [OF a1 s0] s1 have i1: "car_inv s1" by auto
  from advances_car [OF a2 s1 i1] s2 have i2: "car_inv s2" and le: "car_le s1 s2" by auto
  define n where "n = length (coordinates s1) - 1"
  have n0: "0 < n" and c1: "current_index s1 \<le> n"
    and p1: "progress s1 = real (current_index s1) / real n * 100"
    using i1 by (auto simp: car_inv_def n_def)
  have n2: "length (coordinates s2) - 1 = n" and c12: "current_index s1 \<le> current_index s2"
    using le by (simp_all add: car_le_def n_def)
  have p2: "progress s2 = real (current_index s2) / real n * 100"
    using i2 n2 by (simp add: car_inv_def)
  have lo: "0 \<le> progress s1" unfolding p1 by simp
  have "real (current_index s1) / real n \<le> 1" using c1 n0 by simp
  then have "real (current_index s1) / real n * 100 \<le> 1 * 100"
    by (rule mult_right_mono) simp
  then have hi: "progress s1 \<le> 100" unfolding p1 by simp
  have "real (current_index s1) / real n \<le> real (current_index s2) / real n"
    using c12 n0 by (simp add: divide_right_mono)
  then have "real (current_index s1) / real n * 100 \<le> real (current_index s2) / real n * 100"
    by (rule mult_right_mono) simp
  then have mono: "progress s1 \<le> progress s2" unfolding p1 p2 .
  have fin: "status s1 = ''finished'' \<longrightarrow> progress s1 = 100 \<and> s2 = s1"
  proof
    assume f: "status s1 = ''finished''"
    with i1 have "current_index s1 + 1 = length (coordinates s1)" by (simp add: car_inv_def)
    then have "current_index s1 = n" by (simp add: n_def)
    with n0 have "progress s1 = 100" unfolding p1 by simp
    moreover from le f have "s2 = s1" by (simp add: car_le_def)
    ultimately show "progress s1 = 100 \<and> s2 = s1" by simp
  qed
  from lo hi mono c1 p1 fin show ?thesis unfolding n_def by blast
qed


theorem C3_progress_invariants_witness:
  "add_car ''car'' [(0, 0), (0, 0)] (ex_engine (ex_state []), ex_db (Val 36))
     = Inr (ex_engine (ex_state [(0, 0), (0, 0)]),
            \<lparr>cars = [ex_row (Val 36)],
             car_positions = [\<lparr>pos_car_id = ''car'', pos_lng = 0, pos_lat = 0,
                               pos_heading = calculate_bearing 0 0 0 0, pos_progress = 0\<rparr>]\<rparr>)
   \<and> advances
        (ex_engine (ex_state [(0, 0), (0, 0)]),
         \<lparr>cars = [ex_row (Val 36)],
          car_positions = [\<lparr>pos_car_id = ''car'', pos_lng = 0, pos_lat = 0,
                            pos_heading = calculate_bearing 0 0 0 0, pos_progress = 0\<rparr>]\<rparr>)
        (ex_engine ((ex_state [(0, 0), (0, 0)])\<lparr>current_index := 1, progress := 100\<rparr>),
         \<lparr>cars = [ex_row (Val 36)],
          car_positions = [\<lparr>pos_car_id = ''car'', pos_lng = 0, pos_lat = 0,
                            pos_heading = calculate_bearing 0 0 0 0, pos_progress = 0\<rparr>,
                           \<lparr>pos_car_id = ''car'', pos_lng = 0, pos_lat = 0,
                            pos_heading = calculate_bearing 0 0 0 0, pos_progress = 100\<rparr>]\<rparr>)
   \<and> progress (ex_state [(0, 0), (0, 0)])
       \<le> progress ((ex_state [(0, 0), (0, 0)])\<lparr>current_index := 1, progress := 100\<rparr>)
   \<and> progress (ex_state [(0, 0), (0, 0)]) \<le> 100"
proof -
  define p0 where "p0 = \<lparr>pos_car_id = ''car'', pos_lng = 0, pos_lat = 0,
                          pos_heading = calculate_bearing 0 0 0 0, pos_progress = 0\<rparr>"
  define db0 where "db0 = \<lparr>cars = [ex_row (Val 36)], car_positions = [p0]\<rparr>"
  define s1 where "s1 = ex_state [(0, 0), (0, 0)]"
  define s2 where "s2 = s1\<lparr>current_index := 1, progress := 100\<rparr>"
  define db2 where "db2 = \<lparr>cars = [ex_row (Val 36)],
      car_positions = [p0, \<lparr>pos_car_id = ''car'', pos_lng = 0, pos_lat = 0,
                            pos_heading = calculate_bearing 0 0 0 0, pos_progress = 100\<rparr>]\<rparr>"
  have reg: "add_car ''car'' [(0, 0), (0, 0)] (ex_engine (ex_state []), ex_db (Val 36))
      = Inr (ex_engine s1, db0)"
    by (simp add: add_car_def Let_def ex_engine_def ex_state_def ex_db_def db0_def p0_def s1_def
        insert_car_position_def calculate_initial_heading_def)
  have step: "update_car_position ''car'' (ex_engine s1, db0) = Inr (ex_engine s2, db2)"
    using update_reach [of "ex_engine s1" "''car''" s1 db0 "ex_row (Val 36)" 36 0]
    by (simp add: ex_engine_def ex_state_def ex_row_def s1_def s2_def db0_def db2_def p0_def
        get_all_cars_def dict_get_def distance_same_point get_car_latest_position_def)
  have adv: "advances (ex_engine s1, db0) (ex_engine s2, db2)"
    by (rule advances_return [OF advances_refl step])
  have r1: "car_states (fst (ex_engine s1, db0)) ''car'' = Some s1"
    and r2: "car_states (fst (ex_engine s2, db2)) ''car'' = Some s2"
    by (simp_all add: ex_engine_def)
  from C3_progress_invariants [OF reg advances_refl adv r1 r2] reg adv
  show ?thesis
    unfolding s1_def s2_def db0_def db2_def p0_def by blast
qed

section \<open>Three calls over a segment of 25 metres\<close>

text \<open>On the equator, two longitudes that differ by 180 to 360 degrees are joined the
  short way round by the haversine distance, while the interpolation of
  \<open>update_car_position\<close> walks the long way through the coordinates.\<close>

lemma atan2_sin_cos_obtuse:
  assumes "pi / 2 \<le> x" "x \<le> pi"
  shows "atan2 (sin x) (- cos x) = pi - x"
proof -
  have "atan2 (sin (pi - x)) (cos (pi - x)) = pi - x"
    using assms by (intro atan2_sin_cos) simp_all
  then show ?thesis by simp
qed

lemma distance_equator_far:
  assumes lo: "180 \<le> l1 - l2" and hi: "l1 - l2 \<le> 360"
  shows "calculate_distance 0 l1 0 l2 = Inr (6371000 * (2 * pi - radians (l1 - l2)))"
proof -
  define x where "x = radians (l1 - l2) / 2"
  have "180 * pi / 180 \<le> (l1 - l2) * pi / 180"
    using lo by (intro divide_right_mono mult_right_mono) simp_all
  then have x0: "pi / 2 \<le> x" by (simp add: x_def radians_def)
  have "(l1 - l2) * pi / 180 \<le> 360 * pi / 180"
    using hi by (intro divide_right_mono mult_right_mono) simp_all
  then have x1: "x \<le> pi" by (simp add: x_def radians_def)
  have "radians (l2 - l1) = - radians (l1 - l2)"
    using radians_diff [of l2 l1] radians_diff [of l1 l2] by simp
  then have "radians (l2 - l1) / 2 = - x" by (simp add: x_def)
  moreover have "radians 0 = 0" by (simp add: radians_def)
  ultimately have a: "haversine_a 0 l1 0 l2 = (sin x)\<^sup>2"
    by (simp add: haversine_a_def)
  have sx: "0 \<le> sin x" using x0 x1 by (intro sin_ge_zero) simp_all
  have "0 \<le> cos (pi - x)" using x0 x1 by (intro cos_ge_zero) simp_all
  then have cx: "cos x \<le> 0" by simp
  have s1: "sqrt ((sin x)\<^sup>2) = sin x" using sx by simp
  have "1 - (sin x)\<^sup>2 = (cos x)\<^sup>2" by (simp add: cos_squared_eq)
  then have s2: "sqrt (1 - (sin x)\<^sup>2) = - cos x" using cx by simp
  show ?thesis
    unfolding calculate_distance_value a s1 s2 atan2_sin_cos_obtuse [OF x0 x1]
    by (simp add: x_def)
qed


text \<open>One interpolating call for the example car on the equator, and how little it moves
  when the segment is long.\<close>

lemma equator_tick:
  assumes lo: "180 \<le> x - q" and hi: "x - q \<le> 360"
    and d: "d = 6371000 * (2 * pi - radians (x - q))"
    and far: "10 < d"
  shows "\<exists>ps'. update_car_position ''car''
            (ex_engine (ex_state [(x, 0), (q, 0)]),
             \<lparr>cars = [ex_row (Val 36)], car_positions = ps\<rparr>)
          = Inr (ex_engine (ex_state [(x + (q - x) * (10 / d), 0), (q, 0)]),
                 \<lparr>cars = [ex_row (Val 36)], car_positions = ps'\<rparr>)"
proof -
  have dist: "calculate_distance 0 x 0 q = Inr d"
    unfolding d by (rule distance_equator_far [OF lo hi])
  have b: "(36 / 3.6) * update_interval (ex_engine (ex_state [(x, 0), (q, 0)])) < d"
    using far by (simp add: ex_engine_def)
  have nz: "d \<noteq> 0" using far by simp
  show ?thesis
    using update_interpolate [of "ex_engine (ex_state [(x, 0), (q, 0)])" "''car''"
        "ex_state [(x, 0), (q, 0)]" "\<lparr>cars = [ex_row (Val 36)], car_positions = ps\<rparr>"
        "ex_row (Val 36)" 36 x 0 q 0 d "10 / d" 0, OF _ _ _ _ _ _ _ dist b] nz
    by (simp add: ex_engine_def ex_state_def ex_row_def get_all_cars_def dict_get_def)
qed

lemma far_bounds:
  assumes lo: "182 \<le> D" and hi: "D \<le> 217"
    and d: "d = 6371000 * (2 * pi - radians D)"
  shows "10 < d" and "D - 1 \<le> D * (1 - 10 / d)" and "D * (1 - 10 / d) \<le> D"
proof -
  have e: "2 * pi - radians D = pi * (360 - D) / 180"
    by (simp add: radians_def field_simps)
  have "2 * 143 \<le> pi * (360 - D)"
    using pi_ge_two hi by (intro mult_mono) simp_all
  then have "1 \<le> pi * (360 - D) / 180" by simp
  then have "6371000 * 1 \<le> 6371000 * (pi * (360 - D) / 180)"
    by (rule mult_left_mono) simp
  then have big: "6371000 \<le> d" unfolding d e by simp
  then show "10 < d" by simp
  have "D * 10 / d \<le> 217 * 10 / 6371000"
    using lo hi big by (intro frac_le) simp_all
  then have small: "D * 10 / d \<le> 1" by simp
  have eq: "D * (1 - 10 / d) = D - D * 10 / d" by (simp add: algebra_simps)
  from small show "D - 1 \<le> D * (1 - 10 / d)" unfolding eq by simp
  have "0 \<le> D * 10 / d" using lo big by simp
  then show "D * (1 - 10 / d) \<le> D" unfolding eq by simp
qed

lemma interp_diff: "x + (q - x) * r - q = (x - q) * (1 - r)" for x q r :: real
  by (simp add: algebra_simps)

text \<open>C9, as stated, fails: at 36 km/h and one call a second the budget is 10 metres, the
  two points of \<^const>\<open>antimeridian_path\<close> are 25 metres apart, and after 3 calls the
  car is still at index 0, not at index 1.\<close>

theorem C9_antimeridian_counterexample:
  "calculate_distance (snd (antimeridian_path ! 0)) (fst (antimeridian_path ! 0))
       (snd (antimeridian_path ! 1)) (fst (antimeridian_path ! 1)) = Inr 25
   \<and> (36 / 3.6) * update_interval (ex_engine (ex_state antimeridian_path)) = 10
   \<and> map_option current_index
        (state_after 3 ''car'' (ex_engine (ex_state antimeridian_path), ex_db (Val 36))) = Some 0
   \<and> map_option current_index
        (state_after 3 ''car'' (ex_engine (ex_state antimeridian_path), ex_db (Val 36))) \<noteq> Some 1"
proof -
  define e :: real where "e = 2250 / (6371000 * pi)"
  define x0 where "x0 = 180 - e"
  define q where "q = e - 180"
  have e0: "0 < e" by (simp add: e_def)
  have "e \<le> 2250 / (6371000 * 2)"
    unfolding e_def using pi_ge_two by (intro divide_left_mono) simp_all
  also have "\<dots> \<le> 1" by simp
  finally have e1: "e \<le> 1" .
  have path: "antimeridian_path = [(x0, 0), (q, 0)]"
    by (simp add: antimeridian_path_def x0_def q_def e_def)
  have D0: "x0 - q = 360 - 2 * e" by (simp add: x0_def q_def)
  have "radians (x0 - q) = 2 * pi - 25 / 6371000"
    unfolding D0 by (simp add: radians_def e_def field_simps)
  then have d0: "25 = 6371000 * (2 * pi - radians (x0 - q))" by simp
  have dist0: "calculate_distance 0 x0 0 q = Inr 25"
    using distance_equator_far [of x0 q] e0 e1 d0 unfolding D0 by simp
  have budget: "(36 / 3.6) * update_interval (ex_engine (ex_state antimeridian_path)) = 10"
    by (simp add: ex_engine_def)
  define x1 where "x1 = x0 + (q - x0) * (10 / 25)"
  have D1: "x1 - q = (360 - 2 * e) * (3 / 5)"
    unfolding x1_def interp_diff D0 by simp
  have D1lo: "214 \<le> x1 - q" and D1hi: "x1 - q \<le> 216"
    unfolding D1 using e0 e1 by simp_all
  define d1 where "d1 = 6371000 * (2 * pi - radians (x1 - q))"
  define x2 where "x2 = x1 + (q - x1) * (10 / d1)"
  have b1: "10 < d1" "x1 - q - 1 \<le> (x1 - q) * (1 - 10 / d1)" "(x1 - q) * (1 - 10 / d1) \<le> x1 - q"
    using far_bounds [of "x1 - q" d1] D1lo D1hi d1_def by simp_all
  have D2lo: "182 \<le> x2 - q" and D2hi: "x2 - q \<le> 217"
    unfolding x2_def interp_diff using b1 D1lo D1hi by linarith+
  define d2 where "d2 = 6371000 * (2 * pi - radians (x2 - q))"
  have b2: "10 < d2"
    using far_bounds(1) [of "x2 - q" d2] D2lo D2hi d2_def by simp
  from equator_tick [of x0 q 25 "[]", OF _ _ d0] e0 e1 D0
  obtain ps1 where t1: "update_car_position ''car''
            (ex_engine (ex_state [(x0, 0), (q, 0)]), ex_db (Val 36))
          = Inr (ex_engine (ex_state [(x1, 0), (q, 0)]),
                 \<lparr>cars = [ex_row (Val 36)], car_positions = ps1\<rparr>)"
    by (auto simp: ex_db_def x1_def)
  from equator_tick [of x1 q d1 ps1, OF _ _ d1_def b1(1)] D1lo D1hi
  obtain ps2 where t2: "update_car_position ''car''
            (ex_engine (ex_state [(x1, 0), (q, 0)]),
             \<lparr>cars = [ex_row (Val 36)], car_positions = ps1\<rparr>)
          = Inr (ex_engine (ex_state [(x2, 0), (q, 0)]),
                 \<lparr>cars = [ex_row (Val 36)], car_positions = ps2\<rparr>)"
    by (auto simp: x2_def)
  from equator_tick [of x2 q d2 ps2, OF _ _ d2_def b2] D2lo D2hi
  obtain ps3 where t3: "update_car_position ''car''
            (ex_engine (ex_state [(x2, 0), (q, 0)]),
             \<lparr>cars = [ex_row (Val 36)], car_positions = ps2\<rparr>)
          = Inr (ex_engine (ex_state [(x2 + (q - x2) * (10 / d2), 0), (q, 0)]),
                 \<lparr>cars = [ex_row (Val 36)], car_positions = ps3\<rparr>)"
    by auto
  have three: "(3::nat) = Suc (Suc (Suc 0))" by simp
  have run: "advance_times (Suc (Suc (Suc 0))) ''car''
        (ex_engine (ex_state [(x0, 0), (q, 0)]), ex_db (Val 36))
      = Inr (ex_engine (ex_state [(x2 + (q - x2) * (10 / d2), 0), (q, 0)]),
             \<lparr>cars = [ex_row (Val 36)], car_positions = ps3\<rparr>)"
    by (simp add: t1 t2 t3)
  have "state_after 3 ''car'' (ex_engine (ex_state antimeridian_path), ex_db (Val 36))
      = Some (ex_state [(x2 + (q - x2) * (10 / d2), 0), (q, 0)])"
    unfolding state_after_def three path run
    by (simp add: ex_engine_def)
  then have idx: "map_option current_index
      (state_after 3 ''car'' (ex_engine (ex_state antimeridian_path), ex_db (Val 36))) = Some 0"
    by (simp add: ex_state_def)
  have d: "calculate_distance (snd (antimeridian_path ! 0)) (fst (antimeridian_path ! 0))
      (snd (antimeridian_path ! 1)) (fst (antimeridian_path ! 1)) = Inr 25"
    using dist0 by (simp add: path)
  show ?thesis unfolding idx using d budget by simp
qed

text \<open>Along a meridian, and along the equator between longitudes at most 180 degrees
  apart, the haversine distance is proportional to the difference of the coordinate
  that changes, so the interpolation is proportional to the distance.\<close>

lemma distance_equator_near:
  assumes "\<bar>l2 - l1\<bar> \<le> 180"
  shows "calculate_distance 0 l1 0 l2 = Inr (6371000 * \<bar>radians (l2 - l1)\<bar>)"
proof -
  define x where "x = \<bar>radians (l2 - l1)\<bar> / 2"
  have x0: "0 \<le> x" by (simp add: x_def)
  have "\<bar>radians (l2 - l1)\<bar> = \<bar>l2 - l1\<bar> * pi / 180"
    by (simp add: radians_def abs_mult)
  also have "\<dots> \<le> 180 * pi / 180"
    using assms by (intro divide_right_mono mult_right_mono) simp_all
  finally have x1: "x \<le> pi / 2" by (simp add: x_def)
  have r0: "radians 0 = 0" by (simp add: radians_def)
  have a: "haversine_a 0 l1 0 l2 = (sin x)\<^sup>2"
  proof -
    have "(sin (radians (l2 - l1) / 2))\<^sup>2 = (sin x)\<^sup>2"
      unfolding x_def by (cases "0 \<le> radians (l2 - l1)") (simp_all add: abs_if)
    then show ?thesis by (simp add: haversine_a_def r0)
  qed
  have sx: "0 \<le> sin x" using x0 x1 by (intro sin_ge_zero) simp_all
  have cx: "0 \<le> cos x" using x0 x1 by (intro cos_ge_zero) simp_all
  have s1: "sqrt ((sin x)\<^sup>2) = sin x" using sx by simp
  have "1 - (sin x)\<^sup>2 = (cos x)\<^sup>2" by (simp add: cos_squared_eq)
  then have s2: "sqrt (1 - (sin x)\<^sup>2) = cos x" using cx by simp
  show ?thesis
    unfolding calculate_distance_value a s1 s2 atan2_sin_cos [OF x0 x1]
    by (simp add: x_def)
qed

lemma scaled_length:
  assumes t: "0 \<le> t" "t \<le> 1"
  shows "6371000 * \<bar>radians (b - (a + (b - a) * t))\<bar> = (1 - t) * (6371000 * \<bar>radians (b - a)\<bar>)"
    and "\<bar>b - (a + (b - a) * t)\<bar> \<le> \<bar>b - a\<bar>"
proof -
  have diff: "b - (a + (b - a) * t) = (b - a) * (1 - t)" by (simp add: algebra_simps)
  have k: "0 \<le> 1 - t" "1 - t \<le> 1" using t by simp_all
  have "radians ((b - a) * (1 - t)) = radians (b - a) * (1 - t)" by (simp add: radians_def)
  then show "6371000 * \<bar>radians (b - (a + (b - a) * t))\<bar>
      = (1 - t) * (6371000 * \<bar>radians (b - a)\<bar>)"
    unfolding diff using k by (simp add: abs_mult)
  have "\<bar>(b - a) * (1 - t)\<bar> = \<bar>b - a\<bar> * (1 - t)" using k by (simp add: abs_mult)
  also have "\<dots> \<le> \<bar>b - a\<bar> * 1" using k by (intro mult_left_mono) simp_all
  finally show "\<bar>b - (a + (b - a) * t)\<bar> \<le> \<bar>b - a\<bar>" unfolding diff by simp
qed

lemma meridian_proportional:
  assumes lat: "\<bar>b - a\<bar> \<le> 180"
    and len: "calculate_distance a lng b lng = Inr L"
    and t: "0 \<le> t" "t \<le> 1"
  shows "calculate_distance (a + (b - a) * t) (lng + (lng - lng) * t) b lng = Inr ((1 - t) * L)"
proof -
  have L: "L = 6371000 * \<bar>radians (b - a)\<bar>"
    using distance_same_lng [OF lat, of lng] len by simp
  have small: "\<bar>b - (a + (b - a) * t)\<bar> \<le> 180"
    using scaled_length(2) [OF t, of b a] lat by simp
  show ?thesis
    using distance_same_lng [OF small, of lng] scaled_length(1) [OF t, of b a]
    by (simp add: L)
qed

lemma equator_proportional:
  assumes lng: "\<bar>b - a\<bar> \<le> 180"
    and len: "calculate_distance 0 a 0 b = Inr L"
    and t: "0 \<le> t" "t \<le> 1"
  shows "calculate_distance (0 + (0 - 0) * t) (a + (b - a) * t) 0 b = Inr ((1 - t) * L)"
proof -
  have L: "L = 6371000 * \<bar>radians (b - a)\<bar>"
    using distance_equator_near [OF lng] len by simp
  have small: "\<bar>b - (a + (b - a) * t)\<bar> \<le> 180"
    using scaled_length(2) [OF t, of b a] lng by simp
  show ?thesis
    using distance_equator_near [OF small] scaled_length(1) [OF t, of b a]
    by (simp add: L)
qed

text \<open>One call for a car on a path of two points, at 36 km/h and one call a second.\<close>

lemma segment_tick:
  assumes reg: "car_states eng car_id = Some (ex_state [(lng1, lat1), (lng2, lat2)])"
    and tick: "update_interval eng = 1"
    and row: "find (\<lambda>c. row_id c = car_id) (get_all_cars db) = Some car"
    and speed: "row_speed car = Val 36"
    and dist: "calculate_distance lat1 lng1 lat2 lng2 = Inr d"
    and far: "10 < d"
  shows "\<exists>db'. update_car_position car_id (eng, db) =
           Inr (eng\<lparr>car_states := (car_states eng)(car_id \<mapsto>
                  ex_state [(lng1 + (lng2 - lng1) * (10 / d), lat1 + (lat2 - lat1) * (10 / d)),
                            (lng2, lat2)])\<rparr>, db')
         \<and> get_all_cars db' = get_all_cars db"
proof -
  have b: "(36 / 3.6) * update_interval eng < d" using far by (simp add: tick)
  have nz: "d \<noteq> 0" using far by simp
  have sp: "dict_get (row_speed car) 30 = Some 36" by (simp add: speed dict_get_def)
  show ?thesis
    using update_interpolate [of eng car_id "ex_state [(lng1, lat1), (lng2, lat2)]" db car 36
        lng1 lat1 lng2 lat2 d "10 / d" 0, OF reg _ _ row sp _ _ dist b] nz
    by (simp add: ex_state_def tick get_all_cars_def)
qed

lemma segment_arrive:
  assumes reg: "car_states eng car_id = Some (ex_state [(lng1, lat1), (lng2, lat2)])"
    and tick: "update_interval eng = 1"
    and row: "find (\<lambda>c. row_id c = car_id) (get_all_cars db) = Some car"
    and speed: "row_speed car = Val 36"
    and dist: "calculate_distance lat1 lng1 lat2 lng2 = Inr d"
    and near: "d \<le> 10"
  shows "\<exists>db'. update_car_position car_id (eng, db) =
           Inr (eng\<lparr>car_states := (car_states eng)(car_id \<mapsto>
                  (ex_state [(lng1, lat1), (lng2, lat2)])
                    \<lparr>current_index := 1, progress := 100\<rparr>)\<rparr>, db')"
proof -
  define st where "st = ex_state [(lng1, lat1), (lng2, lat2)]"
  have b: "d \<le> (36 / 3.6) * update_interval eng" using near by (simp add: tick)
  have sp: "dict_get (row_speed car) 30 = Some 36" by (simp add: speed dict_get_def)
  have dist': "calculate_distance
      (snd (coordinates st ! current_index st)) (fst (coordinates st ! current_index st))
      (snd (coordinates st ! (current_index st + 1)))
      (fst (coordinates st ! (current_index st + 1))) = Inr d"
    using dist by (simp add: st_def ex_state_def)
  have reg': "car_states eng car_id = Some st" using reg by (simp add: st_def)
  show ?thesis
    using update_reach [OF reg' _ _ row sp dist' b]
    by (simp add: st_def ex_state_def)
qed


text \<open>C9, amended: at 36 km/h and one call a second the budget is exactly 10 metres. Take
  a path of two points 25 metres apart along which the haversine distance from the
  interpolated point to the end stays within a quarter of its share
  \<open>(1 - t) * 25\<close> of the segment, as it does exactly along a meridian and along the
  equator between longitudes at most 180 degrees apart, and as it does not across the
  antimeridian. Then the car needs exactly 3 calls: the first two interpolate, leaving
  more than 10 metres after the first and at most 10 metres after the second, with the
  index still 0, and the third moves the index from 0 to 1 and sets the progress to
  100.\<close>

theorem C9_three_ticks:
  assumes reg: "car_states eng car_id = Some (ex_state [(lng1, lat1), (lng2, lat2)])"
    and tick: "update_interval eng = 1"
    and row: "find (\<lambda>c. row_id c = car_id) (get_all_cars db) = Some car"
    and speed: "row_speed car = Val 36"
    and apart: "calculate_distance lat1 lng1 lat2 lng2 = Inr 25"
    and share: "\<forall>t. 0 \<le> t \<and> t \<le> 1 \<longrightarrow>
        (\<exists>d. calculate_distance (lat1 + (lat2 - lat1) * t) (lng1 + (lng2 - lng1) * t) lat2 lng2
               = Inr d
             \<and> \<bar>d - (1 - t) * 25\<bar> \<le> (1 - t) * 25 / 4)"
  shows "(36 / 3.6) * update_interval eng = 10
     \<and> (\<exists>x1 y1 d1 x2 y2 d2.
          state_after 1 car_id (eng, db) = Some (ex_state [(x1, y1), (lng2, lat2)])
        \<and> calculate_distance y1 x1 lat2 lng2 = Inr d1 \<and> 10 < d1
        \<and> state_after 2 car_id (eng, db) = Some (ex_state [(x2, y2), (lng2, lat2)])
        \<and> calculate_distance y2 x2 lat2 lng2 = Inr d2 \<and> d2 \<le> 10
        \<and> state_after 3 car_id (eng, db)
            = Some ((ex_state [(x2, y2), (lng2, lat2)])\<lparr>current_index := 1, progress := 100\<rparr>))"
proof -
  define x1 where "x1 = lng1 + (lng2 - lng1) * (10 / 25)"
  define y1 where "y1 = lat1 + (lat2 - lat1) * (10 / 25)"
  have "(0::real) \<le> 2 / 5 \<and> (2 / 5 :: real) \<le> 1" by simp
  with share obtain d1 where d1: "calculate_distance (lat1 + (lat2 - lat1) * (2 / 5))
        (lng1 + (lng2 - lng1) * (2 / 5)) lat2 lng2 = Inr d1"
    and e1: "\<bar>d1 - (1 - 2 / 5) * 25\<bar> \<le> (1 - 2 / 5) * 25 / 4"
    by blast
  have dist1: "calculate_distance y1 x1 lat2 lng2 = Inr d1"
    using d1 by (simp add: x1_def y1_def)
  from e1 have "\<bar>d1 - 15\<bar> \<le> 15 / 4" by simp
  then have lo1: "10 < d1" and hi1: "d1 \<le> 75 / 4" by linarith+
  define r where "r = 10 / d1"
  have r0: "0 < r" and r1: "r < 1" using lo1 by (simp_all add: r_def)
  have "10 / (75 / 4) \<le> 10 / d1" using lo1 hi1 by (intro divide_left_mono) simp_all
  then have rlo: "8 / 15 \<le> r" by (simp add: r_def)
  define t2 where "t2 = 2 / 5 + 3 / 5 * r"
  define x2 where "x2 = x1 + (lng2 - x1) * (10 / d1)"
  define y2 where "y2 = y1 + (lat2 - y1) * (10 / d1)"
  have alg: "(a + (b - a) * (10 / 25)) + (b - (a + (b - a) * (10 / 25))) * r
      = a + (b - a) * (2 / 5 + 3 / 5 * r)" for a b :: real
    by (simp add: field_simps)
  have x2t: "x2 = lng1 + (lng2 - lng1) * t2" and y2t: "y2 = lat1 + (lat2 - lat1) * t2"
    unfolding x2_def y2_def x1_def y1_def t2_def r_def [symmetric] by (rule alg)+
  have "0 \<le> t2 \<and> t2 \<le> 1" using r0 r1 by (simp add: t2_def)
  with share obtain d2 where d2: "calculate_distance (lat1 + (lat2 - lat1) * t2)
        (lng1 + (lng2 - lng1) * t2) lat2 lng2 = Inr d2"
    and e2: "\<bar>d2 - (1 - t2) * 25\<bar> \<le> (1 - t2) * 25 / 4"
    by blast
  have dist2: "calculate_distance y2 x2 lat2 lng2 = Inr d2"
    using d2 by (simp add: x2t y2t)
  define rest where "rest = (1 - t2) * 25"
  have "1 - t2 \<le> 7 / 25" using rlo by (simp add: t2_def)
  then have rest7: "rest \<le> 7" by (simp add: rest_def)
  from e2 have "\<bar>d2 - rest\<bar> \<le> rest / 4" unfolding rest_def by simp
  with rest7 have near2: "d2 \<le> 10" by linarith
  define eng1 where "eng1 = eng\<lparr>car_states := (car_states eng)(car_id \<mapsto>
      ex_state [(x1, y1), (lng2, lat2)])\<rparr>"
  define eng2 where "eng2 = eng1\<lparr>car_states := (car_states eng1)(car_id \<mapsto>
      ex_state [(x2, y2), (lng2, lat2)])\<rparr>"
  define eng3 where "eng3 = eng2\<lparr>car_states := (car_states eng2)(car_id \<mapsto>
      (ex_state [(x2, y2), (lng2, lat2)])\<lparr>current_index := 1, progress := 100\<rparr>)\<rparr>"
  from segment_tick [OF reg tick row speed apart]
  obtain db1 where t1: "update_car_position car_id (eng, db) = Inr (eng1, db1)"
    and c1: "get_all_cars db1 = get_all_cars db"
    by (auto simp: eng1_def x1_def y1_def)
  have reg1: "car_states eng1 car_id = Some (ex_state [(x1, y1), (lng2, lat2)])"
    and tick1: "update_interval eng1 = 1"
    by (simp_all add: eng1_def tick)
  from segment_tick [OF reg1 tick1 _ speed dist1 lo1, of db1] row c1
  obtain db2 where t2': "update_car_position car_id (eng1, db1) = Inr (eng2, db2)"
    and c2: "get_all_cars db2 = get_all_cars db"
    by (auto simp: eng2_def x2_def y2_def)
  have reg2: "car_states eng2 car_id = Some (ex_state [(x2, y2), (lng2, lat2)])"
    and tick2: "update_interval eng2 = 1"
    by (simp_all add: eng2_def tick1)
  from segment_arrive [OF reg2 tick2 _ speed dist2 near2, of db2] row c2
  obtain db3 where t3: "update_car_position car_id (eng2, db2) = Inr (eng3, db3)"
    by (auto simp: eng3_def)
  have n: "(1::nat) = Suc 0" "(2::nat) = Suc (Suc 0)" "(3::nat) = Suc (Suc (Suc 0))"
    by simp_all
  have s1: "state_after 1 car_id (eng, db) = Some (ex_state [(x1, y1), (lng2, lat2)])"
    unfolding state_after_def n by (simp add: t1 reg1)
  have s2: "state_after 2 car_id (eng, db) = Some (ex_state [(x2, y2), (lng2, lat2)])"
    unfolding state_after_def n by (simp add: t1 t2' reg2)
  have s3: "state_after 3 car_id (eng, db)
      = Some ((ex_state [(x2, y2), (lng2, lat2)])\<lparr>current_index := 1, progress := 100\<rparr>)"
    unfolding state_after_def n by (simp add: t1 t2' t3) (simp add: eng3_def)
  have "(36 / 3.6) * update_interval eng = 10" by (simp add: tick)
  with s1 dist1 lo1 s2 dist2 near2 s3 show ?thesis by blast
qed


theorem C9_three_ticks_witness:
  "map_option current_index
     (state_after 2 ''car'' (ex_engine (ex_state meridian_path), ex_db (Val 36))) = Some 0
   \<and> map_option current_index
     (state_after 3 ''car'' (ex_engine (ex_state meridian_path), ex_db (Val 36))) = Some 1
   \<and> map_option progress
     (state_after 3 ''car'' (ex_engine (ex_state meridian_path), ex_db (Val 36))) = Some 100
   \<and> map_option current_index
     (state_after 2 ''car'' (ex_engine (ex_state equator_path), ex_db (Val 36))) = Some 0
   \<and> map_option current_index
     (state_after 3 ''car'' (ex_engine (ex_state equator_path), ex_db (Val 36))) = Some 1
   \<and> map_option progress
     (state_after 3 ''car'' (ex_engine (ex_state equator_path), ex_db (Val 36))) = Some 100"
proof -
  define b :: real where "b = 4500 / (6371000 * pi)"
  have b0: "0 \<le> b" by (simp add: b_def)
  have "b \<le> 4500 / (6371000 * 2)"
    unfolding b_def using pi_ge_two by (intro divide_left_mono) simp_all
  also have "\<dots> \<le> 180" by simp
  finally have small: "\<bar>b - 0\<bar> \<le> 180" using b0 by simp
  have len: "6371000 * \<bar>radians (b - 0)\<bar> = 25"
    using b0 by (simp add: radians_def b_def abs_mult)
  have row: "find (\<lambda>c. row_id c = ''car'') (get_all_cars (ex_db (Val 36))) = Some (ex_row (Val 36))"
    and speed: "row_speed (ex_row (Val 36)) = Val 36"
    by (simp_all add: ex_db_def ex_row_def get_all_cars_def)
  have tick: "update_interval (ex_engine st) = 1" for st by (simp add: ex_engine_def)
  have reg: "car_states (ex_engine st) ''car'' = Some st" for st by (simp add: ex_engine_def)
  have m_apart: "calculate_distance 0 0 b 0 = Inr 25"
    using distance_same_lng [OF small, of 0] len by simp
  have m_share: "\<forall>t. 0 \<le> t \<and> t \<le> 1 \<longrightarrow>
      (\<exists>d. calculate_distance (0 + (b - 0) * t) (0 + (0 - 0) * t) b 0 = Inr d
           \<and> \<bar>d - (1 - t) * 25\<bar> \<le> (1 - t) * 25 / 4)"
    using meridian_proportional [OF small m_apart] by simp
  have e_apart: "calculate_distance 0 0 0 b = Inr 25"
    using distance_equator_near [OF small] len by simp
  have e_share: "\<forall>t. 0 \<le> t \<and> t \<le> 1 \<longrightarrow>
      (\<exists>d. calculate_distance (0 + (0 - 0) * t) (0 + (b - 0) * t) 0 b = Inr d
           \<and> \<bar>d - (1 - t) * 25\<bar> \<le> (1 - t) * 25 / 4)"
    using equator_proportional [OF small e_apart] by simp
  have mp: "meridian_path = [(0, 0), (0, b)]" by (simp add: meridian_path_def b_def)
  have ep: "equator_path = [(0, 0), (b, 0)]" by (simp add: equator_path_def b_def)
  from C9_three_ticks [OF reg tick row speed m_apart m_share]
  have m: "map_option current_index
       (state_after 2 ''car'' (ex_engine (ex_state [(0, 0), (0, b)]), ex_db (Val 36))) = Some 0
     \<and> map_option current_index
       (state_after 3 ''car'' (ex_engine (ex_state [(0, 0), (0, b)]), ex_db (Val 36))) = Some 1
     \<and> map_option progress
       (state_after 3 ''car'' (ex_engine (ex_state [(0, 0), (0, b)]), ex_db (Val 36))) = Some 100"
    by (auto simp: ex_state_def)
  from C9_three_ticks [OF reg tick row speed e_apart e_share]
  have e: "map_option current_index
       (state_after 2 ''car'' (ex_engine (ex_state [(0, 0), (b, 0)]), ex_db (Val 36))) = Some 0
     \<and> map_option current_index
       (state_after 3 ''car'' (ex_engine (ex_state [(0, 0), (b, 0)]), ex_db (Val 36))) = Some 1
     \<and> map_option progress
       (state_after 3 ''car'' (ex_engine (ex_state [(0, 0), (b, 0)]), ex_db (Val 36))) = Some 100"
    by (auto simp: ex_state_def)
  from m e show ?thesis unfolding mp ep by blast
qed

end
